theory Spec2Isabelle
  imports Main "HOL-Library.AList"
begin

section \<open>JavaScript values used by the client\<close>

text \<open>
  A JavaScript number that the client obtains from \<^verbatim>\<open>parseInt\<close>: an integer, or
  \<^verbatim>\<open>NaN\<close> (\<open>None\<close>). The rounding of integers beyond \<open>2^53\<close> to doubles is not
  modelled.
\<close>

type_synonym js_number = "int option"

text \<open>
  A value produced by \<^verbatim>\<open>response.json()\<close>. An object is its list of properties, in
  order, with distinct keys. A number is kept as the text that \<^verbatim>\<open>ToString\<close> gives it
  (\<open>42\<close>, \<open>-0.5\<close>, \<open>1e+21\<close>; both zeros print as \<open>0\<close>): the client only tests a
  number of the body for being zero, prints it and copies it.
\<close>

datatype json =
    JNull
  | JBool bool
  | JNum string
  | JStr string
  | JArr "json list"
  | JObj "(string \<times> json) list"

text \<open>\<^verbatim>\<open>interface RateLimitInfo\<close> of types.ts; \<open>retryAfter = None\<close> is \<^verbatim>\<open>undefined\<close>.\<close>

record RateLimitInfo =
  limit :: js_number
  remaining :: js_number
  reset :: js_number
  retryAfter :: "js_number option"

text \<open>
  The value of a property of a result object: \<^verbatim>\<open>undefined\<close>, a JSON value of the
  response body, or the rate-limit record the client attaches.
\<close>

datatype jsval =
    Undefined
  | Json json
  | RateLimit RateLimitInfo

type_synonym js_object = "(string \<times> jsval) list"

text \<open>\<^verbatim>\<open>class WardenAPIError extends Error\<close> of types.ts.\<close>

record WardenAPIError =
  message :: string
  statusCode :: "nat option"
  responseData :: "json option"
  rateLimit :: "RateLimitInfo option"

text \<open>
  What a \<^verbatim>\<open>throw\<close> or a rejected promise carries: a \<^verbatim>\<open>WardenAPIError\<close>, any other
  instance of \<^verbatim>\<open>Error\<close> (by its message: the \<^verbatim>\<open>TypeError\<close> or \<^verbatim>\<open>TimeoutError\<close> of a
  failed \<^verbatim>\<open>fetch\<close>, the \<^verbatim>\<open>SyntaxError\<close> of \<^verbatim>\<open>response.json()\<close>, the \<^verbatim>\<open>TypeError\<close> of a
  failed conversion to a string, the \<^verbatim>\<open>RangeError\<close> of \<^verbatim>\<open>AbortSignal.timeout\<close>, the
  \<^verbatim>\<open>Error\<close> of the constructor), or a value that is no \<^verbatim>\<open>Error\<close> (by its
  \<^verbatim>\<open>String(...)\<close>).
\<close>

datatype js_exception =
    WardenError WardenAPIError
  | PlainError string
  | NonErrorValue string

definition instanceof_WardenAPIError :: "js_exception \<Rightarrow> bool" where
  "instanceof_WardenAPIError e = (case e of WardenError _ \<Rightarrow> True | _ \<Rightarrow> False)"

text \<open>\<^verbatim>\<open>error instanceof Error ? error : new Error(String(error))\<close>\<close>

definition as_Error :: "js_exception \<Rightarrow> js_exception" where
  "as_Error e = (case e of NonErrorValue s \<Rightarrow> PlainError s | _ \<Rightarrow> e)"

subsection \<open>Truthiness, property reads, string conversion\<close>

text \<open>The truth value JavaScript gives a value in \<^verbatim>\<open>!x\<close>, \<^verbatim>\<open>x || y\<close> and \<^verbatim>\<open>x && y\<close>.\<close>

fun json_truthy :: "json \<Rightarrow> bool" where
  "json_truthy JNull = False"
| "json_truthy (JBool b) = b"
| "json_truthy (JNum text) = (text \<noteq> ''0'')"
| "json_truthy (JStr s) = (s \<noteq> [])"
| "json_truthy (JArr _) = True"
| "json_truthy (JObj _) = True"

fun truthy :: "jsval \<Rightarrow> bool" where
  "truthy Undefined = False"
| "truthy (Json j) = json_truthy j"
| "truthy (RateLimit _) = True"

text \<open>
  \<^verbatim>\<open>v?.key\<close> on a JSON value, for a key that no prototype defines (the client reads
  \<^verbatim>\<open>error\<close>): the property of an object, \<^verbatim>\<open>undefined\<close> (\<open>None\<close>) on everything else.
\<close>

fun json_property :: "json \<Rightarrow> string \<Rightarrow> json option" where
  "json_property (JObj kvs) key = map_of kvs key"
| "json_property _ key = None"

text \<open>\<^verbatim>\<open>obj.key\<close> on a result object.\<close>

definition property :: "js_object \<Rightarrow> string \<Rightarrow> jsval" where
  "property obj key = (case map_of obj key of None \<Rightarrow> Undefined | Some v \<Rightarrow> v)"

text \<open>Decimal digits of a number, as a template literal prints it.\<close>

fun show_nat :: "nat \<Rightarrow> string" where
  "show_nat n =
     (if n < 10 then [''0123456789'' ! n]
      else show_nat (n div 10) @ [''0123456789'' ! (n mod 10)])"

declare show_nat.simps [simp del]

fun join :: "string \<Rightarrow> string list \<Rightarrow> string" where
  "join sep [] = []"
| "join sep [x] = x"
| "join sep (x # y # ys) = x @ sep @ join sep (y # ys)"

text \<open>
  \<^verbatim>\<open>ToString\<close> of a JSON value; \<open>None\<close> is the \<^verbatim>\<open>TypeError\<close> it throws. An array
  joins its elements with commas (\<^verbatim>\<open>null\<close> elements print as nothing). An object
  prints as \<open>[object Object]\<close> through \<^verbatim>\<open>Object.prototype.toString\<close>, unless it has a
  key \<^verbatim>\<open>toString\<close> of its own: that value is not callable, \<^verbatim>\<open>valueOf\<close> gives no
  primitive either, and the conversion throws.
\<close>

fun js_toString :: "json \<Rightarrow> string option" where
  "js_toString JNull = Some ''null''"
| "js_toString (JBool b) = Some (if b then ''true'' else ''false'')"
| "js_toString (JNum text) = Some text"
| "js_toString (JStr s) = Some s"
| "js_toString (JArr xs) =
     map_option (join '','')
       (those (map (\<lambda>x. if x = JNull then Some [] else js_toString x) xs))"
| "js_toString (JObj props) =
     (if map_of props ''toString'' \<noteq> None then None else Some ''[object Object]'')"

definition conversion_TypeError :: js_exception where
  "conversion_TypeError = PlainError ''TypeError: Cannot convert object to primitive value''"

text \<open>
  The constructor of \<^verbatim>\<open>WardenAPIError\<close>: \<^verbatim>\<open>super(message)\<close> converts the message to a
  string, which can throw; the other fields are stored.
\<close>

definition new_WardenAPIError ::
  "json \<Rightarrow> nat \<Rightarrow> json \<Rightarrow> RateLimitInfo option \<Rightarrow> js_exception + WardenAPIError" where
  "new_WardenAPIError msg code data rl =
     (case js_toString msg of
        None \<Rightarrow> Inl conversion_TypeError
      | Some text \<Rightarrow>
          Inr \<lparr> message = text, statusCode = Some code, responseData = Some data,
                rateLimit = rl \<rparr>)"

subsection \<open>\<^verbatim>\<open>parseInt\<close> with no radix\<close>

definition is_white_space :: "char \<Rightarrow> bool" where
  "is_white_space c =
     (c \<in> set [CHR 0x09, CHR 0x0A, CHR 0x0B, CHR 0x0C, CHR 0x0D, CHR 0x20, CHR 0xA0])"

definition digit_of :: "nat \<Rightarrow> char \<Rightarrow> nat option" where
  "digit_of radix c =
     (let n = (of_char c :: nat);
          v = (if 48 \<le> n \<and> n \<le> 57 then Some (n - 48)
               else if 97 \<le> n \<and> n \<le> 122 then Some (n - 87)
               else if 65 \<le> n \<and> n \<le> 90 then Some (n - 55)
               else None)
      in case v of None \<Rightarrow> None | Some d \<Rightarrow> if d < radix then Some d else None)"

fun digits_prefix :: "nat \<Rightarrow> string \<Rightarrow> nat list" where
  "digits_prefix radix [] = []"
| "digits_prefix radix (c # cs) =
     (case digit_of radix c of None \<Rightarrow> [] | Some d \<Rightarrow> d # digits_prefix radix cs)"

definition strip_sign :: "string \<Rightarrow> int \<times> string" where
  "strip_sign s =
     (case s of
        [] \<Rightarrow> (1, s)
      | c # t \<Rightarrow> if c = CHR ''-'' then (- 1, t) else if c = CHR ''+'' then (1, t) else (1, s))"

definition strip_prefix :: "string \<Rightarrow> nat \<times> string" where
  "strip_prefix s =
     (case s of
        c # x # t \<Rightarrow>
          if c = CHR ''0'' \<and> (x = CHR ''x'' \<or> x = CHR ''X'') then (16, t) else (10, s)
      | _ \<Rightarrow> (10, s))"

definition parseInt :: "string \<Rightarrow> js_number" where
  "parseInt s =
     (let (sign, s1) = strip_sign (dropWhile is_white_space s);
          (radix, s2) = strip_prefix s1;
          ds = digits_prefix radix s2
      in if ds = [] then None
         else Some (sign * int (foldl (\<lambda>acc d. acc * radix + d) 0 ds)))"

text \<open>\<^verbatim>\<open>x * 1000\<close> on a number that may be \<^verbatim>\<open>NaN\<close>.\<close>

definition times_1000 :: "js_number \<Rightarrow> js_number" where
  "times_1000 x = map_option (\<lambda>n. n * 1000) x"

section \<open>Configuration and construction\<close>

text \<open>
  \<^verbatim>\<open>interface WardenConfig\<close>: what the caller passes. \<open>None\<close> is a field that is
  missing (or \<^verbatim>\<open>undefined\<close>). Timeouts and retry counts are integers.
\<close>

record WardenConfig =
  apiKey :: "string option"
  baseUrl :: "string option"
  timeout :: "int option"
  retries :: "int option"

text \<open>\<^verbatim>\<open>Required<WardenConfig>\<close>: the private field \<^verbatim>\<open>this.config\<close> of the client.\<close>

record RequiredWardenConfig =
  config_apiKey :: string
  config_baseUrl :: string
  config_timeout :: int
  config_retries :: int

definition startsWith :: "string \<Rightarrow> string \<Rightarrow> bool" where
  "startsWith s p = (take (length p) s = p)"

text \<open>\<^verbatim>\<open>s || d\<close> on an optional string and \<^verbatim>\<open>n || d\<close> on an optional number.\<close>

definition string_or :: "string option \<Rightarrow> string \<Rightarrow> string" where
  "string_or s d = (case s of None \<Rightarrow> d | Some t \<Rightarrow> if t = [] then d else t)"

definition number_or :: "int option \<Rightarrow> int \<Rightarrow> int" where
  "number_or n d = (case n of None \<Rightarrow> d | Some k \<Rightarrow> if k = 0 then d else k)"

definition WardenAPI_constructor :: "WardenConfig \<Rightarrow> js_exception + RequiredWardenConfig" where
  "WardenAPI_constructor config =
     (case apiKey config of
        None \<Rightarrow> Inl (PlainError ''API key is required'')
      | Some key \<Rightarrow>
          if key = [] then Inl (PlainError ''API key is required'')
          else if \<not> startsWith key ''wd_''
          then Inl (PlainError ''API key must start with \"wd_\"'')
          else Inr \<lparr> config_apiKey = key,
                     config_baseUrl = string_or (baseUrl config) ''https://api.iitranq.co.uk/api/v1'',
                     config_timeout = number_or (timeout config) 10000,
                     config_retries = number_or (retries config) 3 \<rparr>)"

section \<open>The transport\<close>

text \<open>
  What the client reads of a \<^verbatim>\<open>Response\<close>: \<open>headers_get\<close> is \<^verbatim>\<open>response.headers.get\<close>
  (\<open>None\<close> is \<^verbatim>\<open>null\<close>), \<open>json_body\<close> is what \<^verbatim>\<open>response.json()\<close> resolves to
  (\<open>None\<close>: it rejects, the body is no JSON).
\<close>

record Response =
  status :: nat
  statusText :: string
  headers_get :: "string \<Rightarrow> string option"
  json_body :: "json option"

text \<open>\<^verbatim>\<open>response.ok\<close>: the status is in the range 200 to 299.\<close>

definition ok :: "Response \<Rightarrow> bool" where
  "ok response = (200 \<le> status response \<and> status response \<le> 299)"

text \<open>The exception of \<^verbatim>\<open>response.json()\<close> on a body that is no JSON.\<close>

definition json_SyntaxError :: js_exception where
  "json_SyntaxError = PlainError ''SyntaxError: Unexpected token in JSON''"

datatype fetch_outcome =
    Rejected js_exception
  | Resolved Response

text \<open>\<^verbatim>\<open>interface RequestOptions\<close>; the body is kept as the value whose JSON text it is.\<close>

record RequestOptions =
  options_method :: "string option"
  options_headers :: "string \<rightharpoonup> string"
  options_body :: "json option"
  options_timeout :: "int option"

text \<open>The \<^verbatim>\<open>RequestInit\<close> passed to \<^verbatim>\<open>fetch\<close>; \<open>init_signal\<close> is the time of
  \<^verbatim>\<open>AbortSignal.timeout\<close>.\<close>

record RequestInit =
  init_method :: string
  init_headers :: "string \<rightharpoonup> string"
  init_body :: "json option"
  init_signal :: int

text \<open>
  One run of the network: the outcome of the \<open>n\<close>-th call of \<^verbatim>\<open>fetch\<close> (counted from 0)
  of one request, given the URL and the \<^verbatim>\<open>RequestInit\<close>.
\<close>

type_synonym fetch = "nat \<Rightarrow> string \<Rightarrow> RequestInit \<Rightarrow> fetch_outcome"

text \<open>What a request does, in order: calls of \<^verbatim>\<open>fetch\<close> (with the attempt index) and
  calls of \<^verbatim>\<open>this.delay\<close> (with the milliseconds).\<close>

datatype event =
    Fetch nat
  | Delay js_number

section \<open>The request executor\<close>

definition extractRateLimit :: "Response \<Rightarrow> RateLimitInfo option" where
  "extractRateLimit response =
     (let limit = headers_get response ''X-RateLimit-Limit'';
          remaining = headers_get response ''X-RateLimit-Remaining'';
          reset = headers_get response ''X-RateLimit-Reset'';
          retryAfter = headers_get response ''Retry-After''
      in case (limit, remaining, reset) of
           (Some l, Some rm, Some rs) \<Rightarrow>
             if l \<noteq> [] \<and> rm \<noteq> [] \<and> rs \<noteq> []
             then Some \<lparr> limit = parseInt l,
                         remaining = parseInt rm,
                         reset = parseInt rs,
                         retryAfter = (case retryAfter of
                                         None \<Rightarrow> None
                                       | Some ra \<Rightarrow> if ra \<noteq> [] then Some (parseInt ra) else None) \<rparr>
             else None
         | _ \<Rightarrow> None)"

definition safeJsonParse :: "Response \<Rightarrow> json" where
  "safeJsonParse response = (case json_body response of None \<Rightarrow> JNull | Some v \<Rightarrow> v)"

text \<open>
  The own enumerable properties that \<^verbatim>\<open>{...data}\<close> copies: the properties of an
  object, the elements of an array and the characters of a string under their indices,
  nothing of \<^verbatim>\<open>null\<close>, a boolean or a number.
\<close>

fun own_properties :: "json \<Rightarrow> (string \<times> json) list" where
  "own_properties (JObj kvs) = kvs"
| "own_properties (JArr xs) = zip (map show_nat [0..<length xs]) xs"
| "own_properties (JStr s) = zip (map show_nat [0..<length s]) (map (\<lambda>c. JStr [c]) s)"
| "own_properties _ = []"

text \<open>\<^verbatim>\<open>{ ...data, rateLimit }\<close>\<close>

definition spread_with_rateLimit :: "json \<Rightarrow> RateLimitInfo option \<Rightarrow> js_object" where
  "spread_with_rateLimit data rl =
     AList.update ''rateLimit'' (case rl of None \<Rightarrow> Undefined | Some r \<Rightarrow> RateLimit r)
       (map (\<lambda>(k, v). (k, Json v)) (own_properties data))"

text \<open>The value
  \<^verbatim>\<open>errorData?.error || `HTTP ${response.status}: ${response.statusText}`\<close>.\<close>

definition errorMessage :: "Response \<Rightarrow> json \<Rightarrow> json" where
  "errorMessage response errorData =
     (case json_property errorData ''error'' of
        Some e \<Rightarrow>
          if json_truthy e then e
          else JStr (''HTTP '' @ show_nat (status response) @ '': '' @ statusText response)
      | None \<Rightarrow> JStr (''HTTP '' @ show_nat (status response) @ '': '' @ statusText response))"

text \<open>\<^verbatim>\<open>parseInt(response.headers.get('Retry-After') || '1') * 1000\<close>\<close>

definition retryAfter_ms :: "Response \<Rightarrow> js_number" where
  "retryAfter_ms response =
     times_1000 (parseInt (string_or (headers_get response ''Retry-After'') ''1''))"

text \<open>
  How the \<^verbatim>\<open>try\<close> block of one attempt ends: with \<^verbatim>\<open>return\<close>, with \<^verbatim>\<open>continue\<close>
  after a delay, or with an exception.
\<close>

datatype try_result =
    Returned js_object
  | Continued js_number
  | Thrown js_exception

definition try_block :: "RequiredWardenConfig \<Rightarrow> nat \<Rightarrow> fetch_outcome \<Rightarrow> try_result" where
  "try_block config attempt outcome =
     (case outcome of
        Rejected error \<Rightarrow> Thrown error
      | Resolved response \<Rightarrow>
          (let rateLimit = extractRateLimit response in
           if \<not> ok response then
             (let errorData = safeJsonParse response
              in if status response = 429 \<and> int attempt < config_retries config
                 then Continued (retryAfter_ms response)
                 else (case new_WardenAPIError (errorMessage response errorData)
                              (status response) errorData rateLimit of
                         Inl error \<Rightarrow> Thrown error
                       | Inr w \<Rightarrow> Thrown (WardenError w)))
           else
             (case json_body response of
                None \<Rightarrow> Thrown json_SyntaxError
              | Some data \<Rightarrow> Returned (spread_with_rateLimit data rateLimit))))"

text \<open>
  How the \<^verbatim>\<open>catch\<close> block ends: it throws the exception again, or it sets
  \<^verbatim>\<open>lastError\<close>, delays and lets the loop go on.
\<close>

datatype catch_result =
    Rethrown js_exception
  | Backoff js_exception js_number

definition catch_block :: "RequiredWardenConfig \<Rightarrow> nat \<Rightarrow> js_exception \<Rightarrow> catch_result" where
  "catch_block config attempt error =
     (let lastError = as_Error error
      in if instanceof_WardenAPIError error \<or> int attempt = config_retries config
         then Rethrown error
         else Backoff lastError (Some (2 ^ attempt * 1000)))"

text \<open>
  The \<^verbatim>\<open>for\<close> loop of \<^verbatim>\<open>makeRequest\<close> from attempt \<open>attempt\<close> on, with the current
  \<^verbatim>\<open>lastError\<close> (\<open>None\<close>: not assigned yet), and the \<^verbatim>\<open>throw lastError\<close> after it.
  \<open>net n\<close> is the outcome of \<^verbatim>\<open>fetch(url, requestOptions)\<close> at attempt \<open>n\<close>. The result
  is what the promise settles to (\<open>Inl\<close>: rejected) and the events in order.
\<close>

function attempt_loop ::
  "RequiredWardenConfig \<Rightarrow> (nat \<Rightarrow> fetch_outcome) \<Rightarrow> nat \<Rightarrow> js_exception option
     \<Rightarrow> (js_exception + js_object) \<times> event list" where
  "attempt_loop config net attempt lastError =
     (if int attempt \<le> config_retries config then
        (case try_block config attempt (net attempt) of
           Returned result \<Rightarrow> (Inr result, [Fetch attempt])
         | Continued ms \<Rightarrow>
             (let (r, evs) = attempt_loop config net (Suc attempt) lastError
              in (r, Fetch attempt # Delay ms # evs))
         | Thrown error \<Rightarrow>
             (case catch_block config attempt error of
                Rethrown e \<Rightarrow> (Inl e, [Fetch attempt])
              | Backoff lastError' ms \<Rightarrow>
                  (let (r, evs) = attempt_loop config net (Suc attempt) (Some lastError')
                   in (r, Fetch attempt # Delay ms # evs))))
      else
        (Inl (case lastError of None \<Rightarrow> NonErrorValue ''undefined'' | Some e \<Rightarrow> e), []))"
  by pat_completeness auto
termination
  by (relation "measure (\<lambda>(config, net, attempt, lastError).
        nat (config_retries config + 1 - int attempt))") auto

declare attempt_loop.simps [simp del]

definition request_url :: "RequiredWardenConfig \<Rightarrow> string \<Rightarrow> string" where
  "request_url config endpoint = config_baseUrl config @ endpoint"

text \<open>\<^verbatim>\<open>const timeout = options.timeout || this.config.timeout\<close>\<close>

definition request_timeout :: "RequiredWardenConfig \<Rightarrow> RequestOptions \<Rightarrow> int" where
  "request_timeout config options = number_or (options_timeout options) (config_timeout config)"

text \<open>
  \<^verbatim>\<open>AbortSignal.timeout(ms)\<close>: the signal, kept as its time, or the \<^verbatim>\<open>RangeError\<close> that
  Node.js throws for a time below 0 or above \<open>2^32 - 1\<close>. (A browser throws a
  \<^verbatim>\<open>TypeError\<close> below 0 and accepts more; every time accepted here is accepted there.)
\<close>

definition timeout_RangeError :: js_exception where
  "timeout_RangeError = PlainError ''RangeError: The value of \"delay\" is out of range''"

definition AbortSignal_timeout :: "int \<Rightarrow> js_exception + int" where
  "AbortSignal_timeout ms =
     (if 0 \<le> ms \<and> ms \<le> 4294967295 then Inr ms else Inl timeout_RangeError)"

text \<open>The object \<^verbatim>\<open>requestOptions\<close>; building it throws when \<^verbatim>\<open>AbortSignal.timeout\<close>
  does.\<close>

definition request_init ::
  "RequiredWardenConfig \<Rightarrow> RequestOptions \<Rightarrow> js_exception + RequestInit" where
  "request_init config options =
     (case AbortSignal_timeout (request_timeout config options) of
        Inl error \<Rightarrow> Inl error
      | Inr signal \<Rightarrow>
          Inr \<lparr> init_method = string_or (options_method options) ''GET'',
                init_headers =
                  [''x-api-key'' \<mapsto> config_apiKey config,
                   ''Content-Type'' \<mapsto> ''application/json'',
                   ''User-Agent'' \<mapsto> ''WardenAPI-JS/1.0.0''] ++ options_headers options,
                init_body = options_body options,
                init_signal = signal \<rparr>)"

text \<open>
  \<^verbatim>\<open>makeRequest\<close>: the request is built before the loop and outside its \<^verbatim>\<open>try\<close>, so an
  exception of \<^verbatim>\<open>AbortSignal.timeout\<close> rejects the promise before any \<^verbatim>\<open>fetch\<close>.
\<close>

definition makeRequest ::
  "RequiredWardenConfig \<Rightarrow> fetch \<Rightarrow> string \<Rightarrow> RequestOptions
     \<Rightarrow> (js_exception + js_object) \<times> event list" where
  "makeRequest config fetch endpoint options =
     (case request_init config options of
        Inl error \<Rightarrow> (Inl error, [])
      | Inr init \<Rightarrow>
          attempt_loop config (\<lambda>n. fetch n (request_url config endpoint) init) 0 None)"

section \<open>The lookup methods\<close>

text \<open>\<^verbatim>\<open>error instanceof WardenAPIError && error.statusCode === 404\<close>\<close>

definition is_404 :: "js_exception \<Rightarrow> bool" where
  "is_404 error = (case error of WardenError w \<Rightarrow> statusCode w = Some 404 | _ \<Rightarrow> False)"

text \<open>\<^verbatim>\<open>{ method: 'POST', body: JSON.stringify(request) }\<close>\<close>

definition post_options :: "json \<Rightarrow> RequestOptions" where
  "post_options request =
     \<lparr> options_method = Some ''POST'', options_headers = Map.empty,
       options_body = Some request, options_timeout = None \<rparr>"

text \<open>The default \<^verbatim>\<open>options = {}\<close> of \<^verbatim>\<open>makeRequest\<close>.\<close>

definition no_options :: RequestOptions where
  "no_options =
     \<lparr> options_method = None, options_headers = Map.empty,
       options_body = None, options_timeout = None \<rparr>"

text \<open>The request bodies the methods build (\<^verbatim>\<open>const request = { data: ... }\<close>).\<close>

definition server_request_by_id :: "string \<Rightarrow> json" where
  "server_request_by_id serverId =
     JObj [(''data'', JObj [(''type'', JStr ''id''), (''id'', JStr serverId)])]"

definition server_request_by_name :: "string \<Rightarrow> json" where
  "server_request_by_name serverName =
     JObj [(''data'', JObj [(''type'', JStr ''name''), (''name'', JStr serverName)])]"

text \<open>One element \<^verbatim>\<open>{ id?: string; name?: string }\<close> of the batch, as
  \<^verbatim>\<open>JSON.stringify\<close> prints it: a missing field is left out.\<close>

definition server_ref :: "string option \<times> string option \<Rightarrow> json" where
  "server_ref s =
     JObj ((case fst s of None \<Rightarrow> [] | Some i \<Rightarrow> [(''id'', JStr i)]) @
           (case snd s of None \<Rightarrow> [] | Some n \<Rightarrow> [(''name'', JStr n)]))"

definition batch_request :: "(string option \<times> string option) list \<Rightarrow> json" where
  "batch_request servers = JObj [(''data'', JObj [(''servers'', JArr (map server_ref servers))])]"

definition user_request_by_id :: "string \<Rightarrow> json" where
  "user_request_by_id userId =
     JObj [(''data'', JObj [(''type'', JStr ''id''), (''id'', JStr userId)])]"

definition checkServerById ::
  "RequiredWardenConfig \<Rightarrow> fetch \<Rightarrow> string \<Rightarrow> (js_exception + js_object) \<times> event list" where
  "checkServerById config fetch serverId =
     (case makeRequest config fetch ''/server'' (post_options (server_request_by_id serverId)) of
        (Inr result, evs) \<Rightarrow> (Inr result, evs)
      | (Inl error, evs) \<Rightarrow>
          if is_404 error
          then (Inr [(''error'', Json (JStr ''Server not found'')), (''data'', Undefined)], evs)
          else (Inl error, evs))"

definition checkServerByName ::
  "RequiredWardenConfig \<Rightarrow> fetch \<Rightarrow> string \<Rightarrow> (js_exception + js_object) \<times> event list" where
  "checkServerByName config fetch serverName =
     (case makeRequest config fetch ''/server'' (post_options (server_request_by_name serverName)) of
        (Inr result, evs) \<Rightarrow> (Inr result, evs)
      | (Inl error, evs) \<Rightarrow>
          if is_404 error
          then (Inr [(''error'', Json (JStr ''Server not found''))], evs)
          else (Inl error, evs))"

definition checkServers ::
  "RequiredWardenConfig \<Rightarrow> fetch \<Rightarrow> (string option \<times> string option) list
     \<Rightarrow> (js_exception + js_object) \<times> event list" where
  "checkServers config fetch servers =
     makeRequest config fetch ''/servers'' (post_options (batch_request servers))"

definition checkUserById ::
  "RequiredWardenConfig \<Rightarrow> fetch \<Rightarrow> string \<Rightarrow> (js_exception + js_object) \<times> event list" where
  "checkUserById config fetch userId =
     (case makeRequest config fetch ''/user'' (post_options (user_request_by_id userId)) of
        (Inr result, evs) \<Rightarrow> (Inr result, evs)
      | (Inl error, evs) \<Rightarrow>
          if is_404 error
          then (Inr [(''error'', Json (JStr ''User not found''))], evs)
          else (Inl error, evs))"

definition getServerInfo ::
  "RequiredWardenConfig \<Rightarrow> fetch \<Rightarrow> string \<Rightarrow> (js_exception + js_object) \<times> event list" where
  "getServerInfo config fetch serverId =
     (case makeRequest config fetch (''/server/'' @ serverId) no_options of
        (Inr result, evs) \<Rightarrow> (Inr result, evs)
      | (Inl error, evs) \<Rightarrow>
          if is_404 error
          then (Inr [(''error'', Json (JStr ''Server not found''))], evs)
          else (Inl error, evs))"

text \<open>Both checks end with \<^verbatim>\<open>return !response.error && !!response?.id\<close>.\<close>

definition isServerFlagged ::
  "RequiredWardenConfig \<Rightarrow> fetch \<Rightarrow> string \<Rightarrow> (js_exception + bool) \<times> event list" where
  "isServerFlagged config fetch serverId =
     (case getServerInfo config fetch serverId of
        (Inl error, evs) \<Rightarrow> (Inl error, evs)
      | (Inr response, evs) \<Rightarrow>
          (Inr (\<not> truthy (property response ''error'') \<and> truthy (property response ''id'')), evs))"

definition isUserFlagged ::
  "RequiredWardenConfig \<Rightarrow> fetch \<Rightarrow> string \<Rightarrow> (js_exception + bool) \<times> event list" where
  "isUserFlagged config fetch userId =
     (case checkUserById config fetch userId of
        (Inl error, evs) \<Rightarrow> (Inl error, evs)
      | (Inr response, evs) \<Rightarrow>
          (Inr (\<not> truthy (property response ''error'') \<and> truthy (property response ''id'')), evs))"

section \<open>The client as an object\<close>

text \<open>
  The client object: its only field is \<^verbatim>\<open>config\<close>, assigned by the constructor. A method
  call is a step from the object before the call to the object after it; a method that
  assigns nothing leaves the object as it is.
\<close>

record WardenAPI =
  this_config :: RequiredWardenConfig





section \<open>Reading a run\<close>

text \<open>The attempt indices of the calls of \<^verbatim>\<open>fetch\<close> in a run, in order.\<close>

fun fetch_indices :: "event list \<Rightarrow> nat list" where
  "fetch_indices [] = []"
| "fetch_indices (Fetch n # evs) = n # fetch_indices evs"
| "fetch_indices (Delay ms # evs) = fetch_indices evs"

text \<open>
  An attempt after which the loop goes on to the next attempt: the \<^verbatim>\<open>try\<close> block ends
  with \<^verbatim>\<open>continue\<close>, or the \<^verbatim>\<open>catch\<close> block ends without throwing.
\<close>

definition goes_on :: "RequiredWardenConfig \<Rightarrow> nat \<Rightarrow> fetch_outcome \<Rightarrow> bool" where
  "goes_on config attempt outcome =
     (case try_block config attempt outcome of
        Returned _ \<Rightarrow> False
      | Continued _ \<Rightarrow> True
      | Thrown error \<Rightarrow>
          (case catch_block config attempt error of Rethrown _ \<Rightarrow> False | Backoff _ _ \<Rightarrow> True))"

section \<open>Example clients and networks\<close>

definition example_config :: RequiredWardenConfig where
  "example_config =
     \<lparr> config_apiKey = ''wd_example'', config_baseUrl = ''https://api.iitranq.co.uk/api/v1'',
       config_timeout = 10000, config_retries = 3 \<rparr>"

definition offline :: fetch where
  "offline n url init = Rejected (PlainError ''TypeError: fetch failed'')"

definition rate_limit_headers :: "string \<Rightarrow> string option" where
  "rate_limit_headers =
     [''X-RateLimit-Limit'' \<mapsto> ''100'', ''X-RateLimit-Remaining'' \<mapsto> ''99'',
      ''X-RateLimit-Reset'' \<mapsto> ''1700000000'']"

definition found_response :: Response where
  "found_response =
     \<lparr> status = 200, statusText = ''OK'', headers_get = rate_limit_headers,
       json_body = Some (JObj [(''id'', JStr ''123''), (''name'', JStr ''X''),
                               (''type'', JStr ''CHEATING'')]) \<rparr>"

definition rate_limited_response :: "string \<Rightarrow> Response" where
  "rate_limited_response retry_after =
     \<lparr> status = 429, statusText = ''Too Many Requests'',
       headers_get = [''Retry-After'' \<mapsto> retry_after], json_body = None \<rparr>"

definition unavailable_response :: Response where
  "unavailable_response =
     \<lparr> status = 503, statusText = ''Service Unavailable'', headers_get = Map.empty,
       json_body = None \<rparr>"

text \<open>A network that answers the first call with one response and every later one with another.\<close>

definition first_then :: "fetch_outcome \<Rightarrow> fetch_outcome \<Rightarrow> fetch" where
  "first_then first later n url init = (if n = 0 then first else later)"

definition not_json_response :: Response where
  "not_json_response =
     \<lparr> status = 200, statusText = ''OK'', headers_get = Map.empty, json_body = None \<rparr>"

definition malformed_rate_limit_response :: Response where
  "malformed_rate_limit_response =
     \<lparr> status = 200, statusText = ''OK'',
       headers_get = [''X-RateLimit-Limit'' \<mapsto> ''abc'', ''X-RateLimit-Remaining'' \<mapsto> ''5'',
                      ''X-RateLimit-Reset'' \<mapsto> ''soon''],
       json_body = Some (JObj []) \<rparr>"

definition not_found_response :: Response where
  "not_found_response =
     \<lparr> status = 404, statusText = ''Not Found'', headers_get = Map.empty,
       json_body = Some (JObj [(''error'', JStr ''No such server'')]) \<rparr>"

text \<open>A 500 whose body is \<^verbatim>\<open>{"error": {"toString": 1}}\<close>, and a 429 with the same body.\<close>

definition unprintable_error_response :: Response where
  "unprintable_error_response =
     \<lparr> status = 500, statusText = ''Internal Server Error'', headers_get = Map.empty,
       json_body = Some (JObj [(''error'', JObj [(''toString'', JNum ''1'')])]) \<rparr>"

definition unprintable_rate_limited_response :: Response where
  "unprintable_rate_limited_response =
     \<lparr> status = 429, statusText = ''Too Many Requests'', headers_get = Map.empty,
       json_body = Some (JObj [(''error'', JObj [(''toString'', JNum ''1'')])]) \<rparr>"

section \<open>The loop, case by case\<close>

text \<open>
  One equation for each way an iteration of the \<^verbatim>\<open>for\<close> loop can end, then the outcome
  of the \<^verbatim>\<open>try\<close> and \<^verbatim>\<open>catch\<close> blocks for each kind of answer.
\<close>

lemma loop_exit:
  "\<not> int attempt \<le> config_retries config \<Longrightarrow>
   attempt_loop config net attempt lastError =
     (Inl (case lastError of None \<Rightarrow> NonErrorValue ''undefined'' | Some e \<Rightarrow> e), [])"
  by (subst attempt_loop.simps) simp

lemma loop_returned:
  "int attempt \<le> config_retries config \<Longrightarrow>
   try_block config attempt (net attempt) = Returned result \<Longrightarrow>
   attempt_loop config net attempt lastError = (Inr result, [Fetch attempt])"
  by (subst attempt_loop.simps) simp

lemma loop_continued:
  "int attempt \<le> config_retries config \<Longrightarrow>
   try_block config attempt (net attempt) = Continued ms \<Longrightarrow>
   attempt_loop config net attempt lastError =
     (fst (attempt_loop config net (Suc attempt) lastError),
      Fetch attempt # Delay ms # snd (attempt_loop config net (Suc attempt) lastError))"
  by (subst attempt_loop.simps) (simp add: case_prod_beta)

lemma loop_rethrown:
  "int attempt \<le> config_retries config \<Longrightarrow>
   try_block config attempt (net attempt) = Thrown error \<Longrightarrow>
   catch_block config attempt error = Rethrown e \<Longrightarrow>
   attempt_loop config net attempt lastError = (Inl e, [Fetch attempt])"
  by (subst attempt_loop.simps) simp

lemma loop_backoff:
  "int attempt \<le> config_retries config \<Longrightarrow>
   try_block config attempt (net attempt) = Thrown error \<Longrightarrow>
   catch_block config attempt error = Backoff lastError' ms \<Longrightarrow>
   attempt_loop config net attempt lastError =
     (fst (attempt_loop config net (Suc attempt) (Some lastError')),
      Fetch attempt # Delay ms # snd (attempt_loop config net (Suc attempt) (Some lastError')))"
  by (subst attempt_loop.simps) (simp add: case_prod_beta)

lemma continued_less:
  "try_block config attempt outcome = Continued ms \<Longrightarrow> int attempt < config_retries config"
  by (auto simp: try_block_def Let_def
      split: fetch_outcome.splits if_splits option.splits sum.splits)

lemma backoff_neq:
  "catch_block config attempt error = Backoff le ms \<Longrightarrow>
     int attempt \<noteq> config_retries config \<and> \<not> instanceof_WardenAPIError error
     \<and> le = as_Error error \<and> ms = Some (2 ^ attempt * 1000)"
  by (auto simp: catch_block_def Let_def split: if_splits)

lemma try_block_rejected:
  "try_block config attempt (Rejected error) = Thrown error"
  by (simp add: try_block_def)

lemma try_block_ok:
  "ok response \<Longrightarrow> json_body response = Some data \<Longrightarrow>
   try_block config attempt (Resolved response) =
     Returned (spread_with_rateLimit data (extractRateLimit response))"
  by (simp add: try_block_def Let_def)

lemma try_block_parse_failure:
  "ok response \<Longrightarrow> json_body response = None \<Longrightarrow>
   try_block config attempt (Resolved response) = Thrown json_SyntaxError"
  by (simp add: try_block_def Let_def)

lemma status_429_not_ok: "status response = 429 \<Longrightarrow> \<not> ok response"
  by (simp add: ok_def)

lemma try_block_rate_limited:
  "status response = 429 \<Longrightarrow> int attempt < config_retries config \<Longrightarrow>
   try_block config attempt (Resolved response) = Continued (retryAfter_ms response)"
  by (simp add: try_block_def Let_def ok_def)

lemma try_block_domain_error:
  "\<not> ok response \<Longrightarrow> \<not> (status response = 429 \<and> int attempt < config_retries config) \<Longrightarrow>
   js_toString (errorMessage response (safeJsonParse response)) = Some msg \<Longrightarrow>
   try_block config attempt (Resolved response) =
     Thrown (WardenError \<lparr> message = msg,
                            statusCode = Some (status response),
                            responseData = Some (safeJsonParse response),
                            rateLimit = extractRateLimit response \<rparr>)"
  by (simp add: try_block_def Let_def new_WardenAPIError_def)

lemma try_block_conversion_error:
  "\<not> ok response \<Longrightarrow> \<not> (status response = 429 \<and> int attempt < config_retries config) \<Longrightarrow>
   js_toString (errorMessage response (safeJsonParse response)) = None \<Longrightarrow>
   try_block config attempt (Resolved response) = Thrown conversion_TypeError"
  by (simp add: try_block_def Let_def new_WardenAPIError_def)

lemma catch_block_WardenError:
  "catch_block config attempt (WardenError w) = Rethrown (WardenError w)"
  by (simp add: catch_block_def instanceof_WardenAPIError_def)

lemma catch_block_last:
  "int attempt = config_retries config \<Longrightarrow> catch_block config attempt error = Rethrown error"
  by (simp add: catch_block_def)

lemma catch_block_backoff:
  "int attempt \<noteq> config_retries config \<Longrightarrow> \<not> instanceof_WardenAPIError error \<Longrightarrow>
   catch_block config attempt error = Backoff (as_Error error) (Some (2 ^ attempt * 1000))"
  by (simp add: catch_block_def)

lemma loop_cong:
  "\<forall>n\<ge>a. net' n = net n \<Longrightarrow>
   attempt_loop config net' a le = attempt_loop config net a le"
proof (induction "nat (config_retries config + 1 - int a)" arbitrary: a le)
  case 0
  then have "\<not> int a \<le> config_retries config" by simp
  then show ?case by (simp add: loop_exit)
next
  case (Suc d)
  then have le: "int a \<le> config_retries config"
    and d: "d = nat (config_retries config + 1 - int (Suc a))" by auto
  have same: "net' a = net a" using Suc.prems by simp
  have later: "\<forall>n\<ge>Suc a. net' n = net n" using Suc.prems by simp
  note IH = Suc.hyps(1)[OF d later]
  show ?case
  proof (cases "try_block config a (net a)")
    case (Returned result)
    then show ?thesis using le same by (simp add: loop_returned)
  next
    case (Continued ms)
    then show ?thesis using le same IH by (simp add: loop_continued)
  next
    case (Thrown error)
    show ?thesis
    proof (cases "catch_block config a error")
      case (Rethrown e)
      with Thrown le same show ?thesis by (simp add: loop_rethrown)
    next
      case (Backoff le' ms)
      with Thrown le same IH show ?thesis by (simp add: loop_backoff)
    qed
  qed
qed

lemma loop_thrown_as_rejected:
  assumes "try_block config attempt (net attempt) = Thrown error"
  shows "attempt_loop config net attempt lastError =
         attempt_loop config (net(attempt := Rejected error)) attempt lastError"
proof (cases "int attempt \<le> config_retries config")
  case False
  then show ?thesis by (simp add: loop_exit)
next
  case True
  let ?net' = "net(attempt := Rejected error)"
  have t': "try_block config attempt (?net' attempt) = Thrown error"
    by (simp add: try_block_rejected)
  have later: "attempt_loop config ?net' (Suc attempt) le = attempt_loop config net (Suc attempt) le"
    for le by (rule loop_cong) simp
  show ?thesis
  proof (cases "catch_block config attempt error")
    case (Rethrown e)
    from loop_rethrown[of attempt config net, OF True assms Rethrown]
      loop_rethrown[of attempt config ?net', OF True t' Rethrown]
    show ?thesis by simp
  next
    case (Backoff le' ms)
    from loop_backoff[of attempt config net, OF True assms Backoff]
      loop_backoff[of attempt config ?net', OF True t' Backoff] later
    show ?thesis by simp
  qed
qed

section \<open>Reaching an attempt\<close>

text \<open>
  The loop goes on after an attempt exactly when \<^verbatim>\<open>fetch\<close> was rejected with an exception
  that is no \<^verbatim>\<open>WardenAPIError\<close>, or the body of a successful response did not decode,
  and attempts are left; or when the response was a 429 below the retry budget. When it
  goes on after each of the attempts \<open>a, ..., k - 1\<close>, the run from \<open>a\<close> is those
  attempts followed by the run from \<open>k\<close>.
\<close>

lemma goes_on_iff:
  "goes_on config attempt outcome =
     (case outcome of
        Rejected error \<Rightarrow>
          \<not> instanceof_WardenAPIError error \<and> int attempt \<noteq> config_retries config
      | Resolved response \<Rightarrow>
          if ok response
          then json_body response = None \<and> int attempt \<noteq> config_retries config
          else status response = 429 \<and> int attempt < config_retries config
               \<or> js_toString (errorMessage response (safeJsonParse response)) = None
                  \<and> int attempt \<noteq> config_retries config)"
  by (auto simp: goes_on_def try_block_def catch_block_def Let_def json_SyntaxError_def
      conversion_TypeError_def new_WardenAPIError_def instanceof_WardenAPIError_def
      split: fetch_outcome.splits option.splits)

lemma loop_goes_on:
  assumes "int a \<le> config_retries config" and "goes_on config a (net a)"
  shows "\<exists>le' ms. attempt_loop config net a le =
           (fst (attempt_loop config net (Suc a) le'),
            Fetch a # Delay ms # snd (attempt_loop config net (Suc a) le'))"
proof (cases "try_block config a (net a)")
  case (Returned result)
  with assms(2) show ?thesis by (simp add: goes_on_def)
next
  case (Continued ms)
  from loop_continued[of a config net, OF assms(1) Continued] show ?thesis by blast
next
  case (Thrown error)
  with assms(2) obtain le' ms where "catch_block config a error = Backoff le' ms"
    by (auto simp: goes_on_def split: catch_result.splits)
  from loop_backoff[of a config net, OF assms(1) Thrown this] show ?thesis by blast
qed

lemma loop_reach:
  assumes "\<forall>n. a \<le> n \<and> n < k \<longrightarrow> goes_on config n (net n)"
    and "a \<le> k" and "int k \<le> config_retries config"
  shows "\<exists>le' evs. attempt_loop config net a le =
           (fst (attempt_loop config net k le'), evs @ snd (attempt_loop config net k le'))
         \<and> fetch_indices evs = [a..<k]"
  using assms(1,2)
proof (induction "k - a" arbitrary: a le)
  case 0
  then have "a = k" by simp
  then show ?case by (intro exI[of _ le] exI[of _ "[]"]) simp
next
  case (Suc d)
  then have lt: "a < k" and d: "d = k - Suc a" and le': "Suc a \<le> k" by auto
  have a: "int a \<le> config_retries config" using lt assms(3) by simp
  have "goes_on config a (net a)" using Suc.prems(1) lt by simp
  from loop_goes_on[of a config net le, OF a this] obtain le1 ms where
    1: "attempt_loop config net a le =
          (fst (attempt_loop config net (Suc a) le1),
           Fetch a # Delay ms # snd (attempt_loop config net (Suc a) le1))" by blast
  have "\<forall>n. Suc a \<le> n \<and> n < k \<longrightarrow> goes_on config n (net n)" using Suc.prems(1) by simp
  from Suc.hyps(1)[OF d this le', of le1] obtain le2 evs where
    2: "attempt_loop config net (Suc a) le1 =
          (fst (attempt_loop config net k le2), evs @ snd (attempt_loop config net k le2))"
       "fetch_indices evs = [Suc a..<k]" by blast
  show ?case
    by (intro exI[of _ le2] exI[of _ "Fetch a # Delay ms # evs"])
       (use 1 2 lt in \<open>simp add: upt_conv_Cons\<close>)
qed

lemma reach_returned:
  assumes "\<forall>n<k. goes_on config n (net n)" and "int k \<le> config_retries config"
    and "try_block config k (net k) = Returned result"
  shows "\<exists>evs. attempt_loop config net 0 le = (Inr result, evs @ [Fetch k])
               \<and> fetch_indices evs = [0..<k]"
proof -
  from loop_reach[of 0 k config net le] assms(1,2) obtain le' evs where
    "attempt_loop config net 0 le =
       (fst (attempt_loop config net k le'), evs @ snd (attempt_loop config net k le'))"
    "fetch_indices evs = [0..<k]" by auto
  with loop_returned[of k config net, OF assms(2,3)] show ?thesis by auto
qed

lemma reach_rethrown:
  assumes "\<forall>n<k. goes_on config n (net n)" and "int k \<le> config_retries config"
    and "try_block config k (net k) = Thrown error"
    and "catch_block config k error = Rethrown e"
  shows "\<exists>evs. attempt_loop config net 0 le = (Inl e, evs @ [Fetch k])
               \<and> fetch_indices evs = [0..<k]"
proof -
  from loop_reach[of 0 k config net le] assms(1,2) obtain le' evs where
    "attempt_loop config net 0 le =
       (fst (attempt_loop config net k le'), evs @ snd (attempt_loop config net k le'))"
    "fetch_indices evs = [0..<k]" by auto
  with loop_rethrown[of k config net, OF assms(2,3,4)] show ?thesis by auto
qed

lemma reach_domain_error:
  assumes "\<forall>n<k. goes_on config n (net n)"
    and "int k \<le> config_retries config"
    and "net k = Resolved response"
    and "\<not> ok response"
    and "\<not> (status response = 429 \<and> int k < config_retries config)"
    and "js_toString (errorMessage response (safeJsonParse response)) = Some msg"
  shows "\<exists>evs. attempt_loop config net 0 le =
           (Inl (WardenError \<lparr> message = msg,
                                statusCode = Some (status response),
                                responseData = Some (safeJsonParse response),
                                rateLimit = extractRateLimit response \<rparr>), evs @ [Fetch k])
         \<and> fetch_indices evs = [0..<k]"
proof -
  have t: "try_block config k (net k) =
     Thrown (WardenError \<lparr> message = msg,
                            statusCode = Some (status response),
                            responseData = Some (safeJsonParse response),
                            rateLimit = extractRateLimit response \<rparr>)"
    using assms(3,4,5,6) by (simp add: try_block_domain_error)
  from reach_rethrown[of k config net, OF assms(1,2) t catch_block_WardenError]
  show ?thesis .
qed

lemma request_init_accepted:
  "(\<exists>init. request_init config options = Inr init) =
     (0 \<le> request_timeout config options \<and> request_timeout config options \<le> 4294967295)"
  by (auto simp: request_init_def AbortSignal_timeout_def)

lemma request_init_refused:
  "\<not> (0 \<le> request_timeout config options \<and> request_timeout config options \<le> 4294967295) \<Longrightarrow>
   makeRequest config fetch endpoint options = (Inl timeout_RangeError, [])"
  by (auto simp: makeRequest_def request_init_def AbortSignal_timeout_def)

lemma request_timeout_post_options:
  "request_timeout config (post_options request) = config_timeout config"
  by (simp add: request_timeout_def post_options_def number_or_def)

lemma request_timeout_no_options:
  "request_timeout config no_options = config_timeout config"
  by (simp add: request_timeout_def no_options_def number_or_def)

lemma makeRequest_built:
  "request_init config options = Inr init \<Longrightarrow>
   makeRequest config fetch endpoint options =
     attempt_loop config (\<lambda>n. fetch n (request_url config endpoint) init) 0 None"
  by (simp add: makeRequest_def)

lemma example_request_built:
  "options_timeout options = None \<Longrightarrow>
   \<exists>init. request_init example_config options = Inr init"
  by (simp add: request_init_accepted request_timeout_def number_or_def example_config_def)

lemma not_found_response_reached:
  assumes "\<forall>n<k. \<forall>url init. goes_on config n (fetch n url init)"
    and "int k \<le> config_retries config"
    and "\<forall>url init. fetch k url init = Resolved response"
    and "status response = 404"
    and "js_toString (errorMessage response (safeJsonParse response)) = Some msg"
    and "0 \<le> request_timeout config options"
    and "request_timeout config options \<le> 4294967295"
  shows "\<exists>w evs. makeRequest config fetch endpoint options = (Inl (WardenError w), evs)
               \<and> statusCode w = Some 404"
proof -
  from assms(6,7) obtain init where init: "request_init config options = Inr init"
    using request_init_accepted[of config options] by blast
  let ?net = "\<lambda>n. fetch n (request_url config endpoint) init"
  have "\<forall>n<k. goes_on config n (?net n)" using assms(1) by simp
  moreover have "?net k = Resolved response" using assms(3) by simp
  moreover have "\<not> ok response"
    and "\<not> (status response = 429 \<and> int k < config_retries config)"
    using assms(4) by (simp_all add: ok_def)
  ultimately show ?thesis
    using reach_domain_error[of k config ?net response msg None] assms(2,4,5) init
    unfolding makeRequest_def by auto
qed

lemma loop_fetch_indices:
  "int a \<le> config_retries config \<Longrightarrow>
   \<exists>k. a \<le> k \<and> int k \<le> config_retries config \<and>
       fetch_indices (snd (attempt_loop config net a le)) = [a..<Suc k]"
proof (induction "nat (config_retries config) - a" arbitrary: a le)
  case 0
  then have eq: "int a = config_retries config" by simp
  show ?case
  proof (cases "try_block config a (net a)")
    case (Returned result)
    with "0.prems" show ?thesis by (auto simp: loop_returned intro!: exI[of _ a])
  next
    case (Continued ms)
    with continued_less eq show ?thesis by fastforce
  next
    case (Thrown error)
    then show ?thesis
    proof (cases "catch_block config a error")
      case (Rethrown e)
      with Thrown "0.prems" show ?thesis by (auto simp: loop_rethrown intro!: exI[of _ a])
    next
      case (Backoff le' ms)
      with backoff_neq eq show ?thesis by fastforce
    qed
  qed
next
  case (Suc d)
  then have lt: "int (Suc a) \<le> config_retries config" and d: "d = nat (config_retries config) - Suc a"
    by auto
  have le: "int a \<le> config_retries config" using lt by simp
  have step: "\<And>le'. \<exists>k. a \<le> k \<and> int k \<le> config_retries config \<and>
       a # fetch_indices (snd (attempt_loop config net (Suc a) le')) = [a..<Suc k]"
  proof -
    fix le'
    from Suc.hyps(1)[OF d lt, of le'] obtain k where k: "Suc a \<le> k" "int k \<le> config_retries config"
      "fetch_indices (snd (attempt_loop config net (Suc a) le')) = [Suc a..<Suc k]" by blast
    then have "a # fetch_indices (snd (attempt_loop config net (Suc a) le')) = [a..<Suc k]"
      by (simp add: upt_conv_Cons)
    with k show "\<exists>k. a \<le> k \<and> int k \<le> config_retries config \<and>
       a # fetch_indices (snd (attempt_loop config net (Suc a) le')) = [a..<Suc k]"
      by (intro exI[of _ k]) simp
  qed
  show ?case
  proof (cases "try_block config a (net a)")
    case (Returned result)
    with le show ?thesis by (auto simp: loop_returned intro!: exI[of _ a])
  next
    case (Continued ms)
    with le step[of le] show ?thesis by (simp add: loop_continued)
  next
    case (Thrown error)
    then show ?thesis
    proof (cases "catch_block config a error")
      case (Rethrown e)
      with Thrown le show ?thesis by (auto simp: loop_rethrown intro!: exI[of _ a])
    next
      case (Backoff le' ms)
      with Thrown le step[of "Some le'"] show ?thesis by (simp add: loop_backoff)
    qed
  qed
qed

lemma loop_all_rejected:
  assumes "\<forall>n\<le>r. net n = Rejected (errors n) \<and> \<not> instanceof_WardenAPIError (errors n)"
    and "int r = config_retries config" and "a \<le> r"
  shows "attempt_loop config net a le =
           (Inl (errors r),
            concat (map (\<lambda>n. [Fetch n, Delay (Some (2 ^ n * 1000))]) [a..<r]) @ [Fetch r])"
  using assms(3)
proof (induction "r - a" arbitrary: a le)
  case 0
  then have [simp]: "a = r" by simp
  have t: "try_block config r (net r) = Thrown (errors r)"
    using assms(1) by (simp add: try_block_def)
  have c: "catch_block config r (errors r) = Rethrown (errors r)"
    using assms(2) by (simp add: catch_block_def)
  have "int r \<le> config_retries config" using assms(2) by simp
  from loop_rethrown[of r config net, OF this t c]
  show ?case by simp
next
  case (Suc d)
  then have lt: "a < r" and d: "d = r - Suc a" and le': "Suc a \<le> r" by auto
  have t: "try_block config a (net a) = Thrown (errors a)"
    using assms(1) lt by (simp add: try_block_def)
  have c: "catch_block config a (errors a) = Backoff (as_Error (errors a)) (Some (2 ^ a * 1000))"
    using assms(1,2) lt by (auto simp: catch_block_def)
  have "int a \<le> config_retries config" using lt assms(2) by simp
  from loop_backoff[of a config net, OF this t c] Suc.hyps(1)[OF d le'] lt
  show ?case by (simp add: upt_conv_Cons)
qed

section \<open>Result objects and headers\<close>

lemma property_spread_rateLimit:
  "property (spread_with_rateLimit data rl) ''rateLimit'' =
     (case rl of None \<Rightarrow> Undefined | Some r \<Rightarrow> RateLimit r)"
  by (simp add: property_def spread_with_rateLimit_def update_conv')

lemma property_spread_other:
  "key \<noteq> ''rateLimit'' \<Longrightarrow>
   property (spread_with_rateLimit data rl) key =
     (case map_of (own_properties data) key of None \<Rightarrow> Undefined | Some v \<Rightarrow> Json v)"
  by (simp add: property_def spread_with_rateLimit_def update_conv' map_of_map
      split: option.splits)

lemma extractRateLimit_partial:
  "headers_get response ''X-RateLimit-Limit'' = None
   \<or> headers_get response ''X-RateLimit-Remaining'' = None
   \<or> headers_get response ''X-RateLimit-Reset'' = None
   \<Longrightarrow> extractRateLimit response = None"
  by (auto simp: extractRateLimit_def Let_def split: option.splits)

lemma retryAfter_ms_default:
  "headers_get response ''Retry-After'' = None \<or> headers_get response ''Retry-After'' = Some []
   \<Longrightarrow> retryAfter_ms response = Some 1000"
  by (auto simp: retryAfter_ms_def string_or_def times_1000_def parseInt_def strip_sign_def
      strip_prefix_def is_white_space_def digit_of_def)

lemma retryAfter_ms_header:
  "headers_get response ''Retry-After'' = Some s \<Longrightarrow> s \<noteq> [] \<Longrightarrow> parseInt s = Some n \<Longrightarrow>
   retryAfter_ms response = Some (n * 1000)"
  by (simp add: retryAfter_ms_def string_or_def times_1000_def)

lemma is_404_iff: "is_404 (WardenError w) = (statusCode w = Some 404)"
  by (simp add: is_404_def)

section \<open>Decimal digits read by parseInt\<close>

text \<open>\<^verbatim>\<open>parseInt\<close> reads back a number printed in decimal digits.\<close>

lemma digit_of_decimal:
  "d < 10 \<Longrightarrow> digit_of 10 (''0123456789'' ! d) = Some d"
proof -
  assume "d < 10"
  then have "d \<in> {0, 1, 2, 3, 4, 5, 6, 7, 8, 9}" by auto
  then show ?thesis by (auto simp: digit_of_def)
qed

lemma digit_not_special:
  "digit_of 10 c \<noteq> None \<Longrightarrow>
   \<not> is_white_space c \<and> c \<noteq> CHR ''-'' \<and> c \<noteq> CHR ''+'' \<and> c \<noteq> CHR ''x'' \<and> c \<noteq> CHR ''X''"
  by (auto simp: digit_of_def is_white_space_def)

lemma digits_prefix_append:
  "list_all (\<lambda>c. digit_of r c \<noteq> None) xs \<Longrightarrow>
   digits_prefix r (xs @ ys) = digits_prefix r xs @ digits_prefix r ys"
  by (induction xs) auto

lemma show_nat_all_digits: "list_all (\<lambda>c. digit_of 10 c \<noteq> None) (show_nat n)"
proof (induction n rule: show_nat.induct)
  case (1 n)
  show ?case
  proof (cases "n < 10")
    case True
    then show ?thesis by (subst show_nat.simps) (simp add: digit_of_decimal)
  next
    case False
    with 1 show ?thesis by (subst show_nat.simps) (simp add: digit_of_decimal)
  qed
qed

lemma show_nat_not_Nil: "show_nat n \<noteq> []"
  by (subst show_nat.simps) simp

lemma show_nat_value:
  "foldl (\<lambda>acc d. acc * 10 + d) 0 (digits_prefix 10 (show_nat n)) = n"
proof (induction n rule: show_nat.induct)
  case (1 n)
  show ?case
  proof (cases "n < 10")
    case True
    then show ?thesis by (subst show_nat.simps) (simp add: digit_of_decimal)
  next
    case False
    have "digits_prefix 10 (show_nat (n div 10) @ [''0123456789'' ! (n mod 10)]) =
            digits_prefix 10 (show_nat (n div 10)) @ digits_prefix 10 [''0123456789'' ! (n mod 10)]"
      by (rule digits_prefix_append) (rule show_nat_all_digits)
    moreover have "digits_prefix 10 [''0123456789'' ! (n mod 10)] = [n mod 10]"
      by (simp add: digit_of_decimal)
    moreover have "show_nat n = show_nat (n div 10) @ [''0123456789'' ! (n mod 10)]"
      using False by (subst show_nat.simps) simp
    ultimately show ?thesis using 1 False by simp
  qed
qed

lemma parseInt_decimal:
  assumes "s \<noteq> []" and "list_all (\<lambda>c. digit_of 10 c \<noteq> None) s"
  shows "parseInt s = Some (int (foldl (\<lambda>acc d. acc * 10 + d) 0 (digits_prefix 10 s)))"
proof -
  from assms obtain c t where s: "s = c # t" and c: "digit_of 10 c \<noteq> None"
    and t: "list_all (\<lambda>c. digit_of 10 c \<noteq> None) t"
    by (cases s) auto
  have 1: "dropWhile is_white_space s = s" using s c digit_not_special by auto
  have 2: "strip_sign s = (1, s)" using s c digit_not_special by (auto simp: strip_sign_def)
  have 3: "strip_prefix s = (10, s)"
  proof (cases t)
    case Nil
    then show ?thesis by (simp add: s strip_prefix_def)
  next
    case (Cons x t')
    with t have "digit_of 10 x \<noteq> None" by simp
    with digit_not_special have "x \<noteq> CHR ''x'' \<and> x \<noteq> CHR ''X''" by blast
    with Cons show ?thesis by (simp add: s strip_prefix_def)
  qed
  have 4: "digits_prefix 10 s \<noteq> []" using s c by auto
  show ?thesis using 4 by (simp add: parseInt_def 1 2 3)
qed

lemma parseInt_show_nat: "parseInt (show_nat n) = Some (int n)"
  using parseInt_decimal[OF show_nat_not_Nil show_nat_all_digits, of n]
  by (simp only: show_nat_value)

section \<open>Method calls and the client object\<close>



section \<open>Two example runs\<close>

text \<open>A request answered at once with a server record, and one answered with status 404.\<close>

lemma run_found:
  assumes "options_timeout options = None"
  shows "makeRequest example_config (\<lambda>n url init. Resolved found_response) endpoint options =
     (Inr [(''id'', Json (JStr ''123'')), (''name'', Json (JStr ''X'')),
           (''type'', Json (JStr ''CHEATING'')),
           (''rateLimit'', RateLimit \<lparr> limit = Some 100, remaining = Some 99,
                                        reset = Some 1700000000, retryAfter = None \<rparr>)],
      [Fetch 0])"
proof -
  from example_request_built[OF assms] obtain init where
    "request_init example_config options = Inr init" by blast
  then show ?thesis
    by (simp add: makeRequest_built attempt_loop.simps example_config_def found_response_def
      try_block_def ok_def extractRateLimit_def rate_limit_headers_def spread_with_rateLimit_def
      parseInt_def strip_sign_def strip_prefix_def is_white_space_def digit_of_def)
qed

lemma run_not_found:
  assumes "options_timeout options = None"
  shows "makeRequest example_config (\<lambda>n url init. Resolved not_found_response) endpoint options =
     (Inl (WardenError \<lparr> message = ''No such server'', statusCode = Some 404,
                          responseData = Some (JObj [(''error'', JStr ''No such server'')]),
                          rateLimit = None \<rparr>), [Fetch 0])"
proof -
  from example_request_built[OF assms] obtain init where
    "request_init example_config options = Inr init" by blast
  then show ?thesis
    by (simp add: makeRequest_built attempt_loop.simps example_config_def not_found_response_def
      try_block_def catch_block_def ok_def extractRateLimit_def safeJsonParse_def
      errorMessage_def new_WardenAPIError_def instanceof_WardenAPIError_def)
qed

lemma options_timeout_post_options: "options_timeout (post_options request) = None"
  by (simp add: post_options_def)

lemma options_timeout_no_options: "options_timeout no_options = None"
  by (simp add: no_options_def)

section \<open>The attempt budget and the exponential backoff\<close>

text \<open>
  Claim C1. With a retry budget \<open>config_retries config \<ge> 0\<close>, every call of
  \<^verbatim>\<open>makeRequest\<close> calls \<^verbatim>\<open>fetch\<close> at the attempt indices \<open>0, 1, ...\<close> in order and
  at most budget + 1 times. When the request is built (\<^verbatim>\<open>AbortSignal.timeout\<close> accepts
  the timeout: it is between 0 and \<open>2^32 - 1\<close>), the indices are \<open>0, ..., k\<close> for some
  \<open>k\<close> up to the budget; and when moreover every attempt up to the budget is rejected with
  an exception that is no \<^verbatim>\<open>WardenAPIError\<close>, all budget + 1 attempts run, attempt \<open>n\<close>
  is followed by a delay of \<open>2^n\<close> seconds (1000, 2000, 4000, ... milliseconds) before
  attempt \<open>n + 1\<close>, and the promise is rejected with the exception of the last attempt,
  unchanged.
\<close>

theorem makeRequest_attempts_and_backoff:
  assumes "0 \<le> config_retries config"
  shows "(\<exists>m. int m \<le> config_retries config + 1 \<and>
            fetch_indices (snd (makeRequest config fetch endpoint options)) = [0..<m])
       \<and> (\<forall>init. request_init config options = Inr init \<longrightarrow>
            0 \<le> request_timeout config options \<and> request_timeout config options \<le> 4294967295
          \<and> (\<exists>k. int k \<le> config_retries config \<and>
                fetch_indices (snd (makeRequest config fetch endpoint options)) = [0..<Suc k])
          \<and> ((\<forall>n\<le>nat (config_retries config).
                  fetch n (request_url config endpoint) init = Rejected (errors n)
                  \<and> \<not> instanceof_WardenAPIError (errors n))
                \<longrightarrow> makeRequest config fetch endpoint options =
                      (Inl (errors (nat (config_retries config))),
                       concat (map (\<lambda>n. [Fetch n, Delay (Some (2 ^ n * 1000))])
                                 [0..<nat (config_retries config)])
                       @ [Fetch (nat (config_retries config))])))"
proof (intro conjI impI allI)
  have z: "int 0 \<le> config_retries config" using assms by simp
  show "\<exists>m. int m \<le> config_retries config + 1 \<and>
            fetch_indices (snd (makeRequest config fetch endpoint options)) = [0..<m]"
  proof (cases "request_init config options")
    case (Inl error)
    then have "fetch_indices (snd (makeRequest config fetch endpoint options)) = [0..<0]"
      by (simp add: makeRequest_def)
    with assms show ?thesis by (intro exI[of _ 0]) simp
  next
    case (Inr init)
    from loop_fetch_indices[OF z, of "\<lambda>n. fetch n (request_url config endpoint) init" None]
    obtain k where "int k \<le> config_retries config"
      "fetch_indices (snd (makeRequest config fetch endpoint options)) = [0..<Suc k]"
      unfolding makeRequest_built[OF Inr] by blast
    then show ?thesis by (intro exI[of _ "Suc k"]) simp
  qed
next
  fix init
  assume init: "request_init config options = Inr init"
  show "0 \<le> request_timeout config options" "request_timeout config options \<le> 4294967295"
    using init request_init_accepted[of config options] by auto
  have z: "int 0 \<le> config_retries config" using assms by simp
  from loop_fetch_indices[OF z]
  show "\<exists>k. int k \<le> config_retries config \<and>
            fetch_indices (snd (makeRequest config fetch endpoint options)) = [0..<Suc k]"
    unfolding makeRequest_built[OF init] by blast
  assume all: "\<forall>n\<le>nat (config_retries config).
     fetch n (request_url config endpoint) init = Rejected (errors n)
     \<and> \<not> instanceof_WardenAPIError (errors n)"
  have r: "int (nat (config_retries config)) = config_retries config" using assms by simp
  show "makeRequest config fetch endpoint options =
          (Inl (errors (nat (config_retries config))),
           concat (map (\<lambda>n. [Fetch n, Delay (Some (2 ^ n * 1000))])
                     [0..<nat (config_retries config)])
           @ [Fetch (nat (config_retries config))])"
    unfolding makeRequest_built[OF init]
    by (rule loop_all_rejected[where errors = errors, OF _ r]) (use all in auto)
qed

theorem makeRequest_attempts_and_backoff_witness:
  "0 \<le> config_retries example_config
   \<and> request_timeout example_config no_options = 10000
   \<and> fetch_indices (snd (makeRequest example_config offline ''/server'' no_options)) = [0, 1, 2, 3]
   \<and> makeRequest example_config offline ''/server'' no_options =
       (Inl (PlainError ''TypeError: fetch failed''),
        [Fetch 0, Delay (Some 1000), Fetch 1, Delay (Some 2000),
         Fetch 2, Delay (Some 4000), Fetch 3])"
proof -
  obtain init where init: "request_init example_config no_options = Inr init"
    using example_request_built[OF options_timeout_no_options] by blast
  have r: "0 \<le> config_retries example_config" by (simp add: example_config_def)
  from makeRequest_attempts_and_backoff
    [OF r, of offline "''/server''" no_options "\<lambda>n. PlainError ''TypeError: fetch failed''"] init
  show ?thesis
    by (simp add: example_config_def offline_def instanceof_WardenAPIError_def upt_rec
        request_timeout_no_options)
qed

section \<open>A rate-limited response\<close>

text \<open>
  Claim C2, as amended. When the loop receives a response with status 429 at an attempt
  below the retry budget, it calls \<^verbatim>\<open>delay\<close> with
  \<^verbatim>\<open>parseInt(retryAfter || '1') * 1000\<close> and goes on with the next attempt, with
  \<^verbatim>\<open>lastError\<close> unchanged: the delay is 1000 ms when the header \<^verbatim>\<open>Retry-After\<close> is
  missing or empty, and \<open>seconds * 1000\<close> ms when the header starts with the integer
  \<open>seconds\<close> (a header that is \<open>seconds\<close> in decimal digits does). A 429 at the last
  attempt whose error message converts to a string rejects the promise with a
  \<^verbatim>\<open>WardenAPIError\<close> that carries that message, the status 429 and the extracted
  rate-limit record.
\<close>

theorem rate_limited_retry:
  assumes "net attempt = Resolved response" and "status response = 429"
  shows "(int attempt < config_retries config \<longrightarrow>
            attempt_loop config net attempt lastError =
              (fst (attempt_loop config net (Suc attempt) lastError),
               Fetch attempt # Delay (retryAfter_ms response)
                 # snd (attempt_loop config net (Suc attempt) lastError)))
       \<and> (headers_get response ''Retry-After'' = None
            \<or> headers_get response ''Retry-After'' = Some []
          \<longrightarrow> retryAfter_ms response = Some 1000)
       \<and> (\<forall>s seconds. headers_get response ''Retry-After'' = Some s \<and> s \<noteq> []
             \<and> parseInt s = Some seconds \<longrightarrow>
             retryAfter_ms response = Some (seconds * 1000))
       \<and> (\<forall>seconds. headers_get response ''Retry-After'' = Some (show_nat seconds) \<longrightarrow>
             retryAfter_ms response = Some (int seconds * 1000))
       \<and> (int attempt = config_retries config \<longrightarrow>
            (\<forall>msg. js_toString (errorMessage response (safeJsonParse response)) = Some msg \<longrightarrow>
               (\<exists>w. attempt_loop config net attempt lastError =
                      (Inl (WardenError w), [Fetch attempt])
                  \<and> message w = msg
                  \<and> statusCode w = Some 429
                  \<and> rateLimit w = extractRateLimit response)))"
proof (intro conjI impI allI)
  assume lt: "int attempt < config_retries config"
  then have le: "int attempt \<le> config_retries config" by simp
  have "try_block config attempt (net attempt) = Continued (retryAfter_ms response)"
    using assms lt by (simp add: try_block_rate_limited)
  from loop_continued[of attempt config net, OF le this]
  show "attempt_loop config net attempt lastError =
          (fst (attempt_loop config net (Suc attempt) lastError),
           Fetch attempt # Delay (retryAfter_ms response)
             # snd (attempt_loop config net (Suc attempt) lastError))" .
next
  assume "headers_get response ''Retry-After'' = None
            \<or> headers_get response ''Retry-After'' = Some []"
  then show "retryAfter_ms response = Some 1000" by (rule retryAfter_ms_default)
next
  fix s seconds
  assume "headers_get response ''Retry-After'' = Some s \<and> s \<noteq> [] \<and> parseInt s = Some seconds"
  then show "retryAfter_ms response = Some (seconds * 1000)"
    by (simp add: retryAfter_ms_header)
next
  fix seconds
  assume "headers_get response ''Retry-After'' = Some (show_nat seconds)"
  then show "retryAfter_ms response = Some (int seconds * 1000)"
    by (simp add: retryAfter_ms_header show_nat_not_Nil parseInt_show_nat)
next
  fix msg
  assume eq: "int attempt = config_retries config"
    and msg: "js_toString (errorMessage response (safeJsonParse response)) = Some msg"
  then have le: "int attempt \<le> config_retries config" by simp
  have t: "try_block config attempt (net attempt) =
     Thrown (WardenError \<lparr> message = msg,
                            statusCode = Some (status response),
                            responseData = Some (safeJsonParse response),
                            rateLimit = extractRateLimit response \<rparr>)"
    using assms eq msg by (simp add: try_block_domain_error status_429_not_ok)
  from loop_rethrown[of attempt config net, OF le t catch_block_WardenError] assms(2)
  show "\<exists>w. attempt_loop config net attempt lastError = (Inl (WardenError w), [Fetch attempt])
          \<and> message w = msg \<and> statusCode w = Some 429 \<and> rateLimit w = extractRateLimit response"
    by simp
qed

theorem rate_limited_retry_witness:
  "status (rate_limited_response ''2'') = 429
   \<and> int 0 < config_retries example_config
   \<and> makeRequest example_config
       (first_then (Resolved (rate_limited_response ''2'')) (Resolved found_response))
       ''/server/123'' no_options =
     (Inr [(''id'', Json (JStr ''123'')), (''name'', Json (JStr ''X'')),
           (''type'', Json (JStr ''CHEATING'')),
           (''rateLimit'', RateLimit \<lparr> limit = Some 100, remaining = Some 99,
                                        reset = Some 1700000000, retryAfter = None \<rparr>)],
      [Fetch 0, Delay (Some 2000), Fetch 1])"
proof -
  obtain init where init: "request_init example_config no_options = Inr init"
    using example_request_built[OF options_timeout_no_options] by blast
  from rate_limited_retry
    [of "\<lambda>n. first_then (Resolved (rate_limited_response ''2'')) (Resolved found_response) n
               (request_url example_config ''/server/123'') init"
        0 "rate_limited_response ''2''" example_config None]
  show ?thesis
    unfolding makeRequest_built[OF init]
    by (simp add: example_config_def first_then_def
      rate_limited_response_def
      retryAfter_ms_def string_or_def times_1000_def attempt_loop.simps[of _ _ "Suc 0"]
      try_block_def ok_def found_response_def rate_limit_headers_def
      spread_with_rateLimit_def extractRateLimit_def parseInt_def strip_sign_def
      strip_prefix_def is_white_space_def digit_of_def)
qed

text \<open>
  Claim C2 as stated fails twice. It promises the default of one second for a header that
  does not parse: with \<^verbatim>\<open>Retry-After: soon\<close> on a 429 at attempt 0 of 3, \<^verbatim>\<open>parseInt\<close>
  gives \<^verbatim>\<open>NaN\<close> and the loop calls \<^verbatim>\<open>delay(NaN)\<close>, not \<^verbatim>\<open>delay(1000)\<close>. And it
  promises a \<^verbatim>\<open>WardenAPIError\<close> for every 429 at the last attempt: when the body is
  \<^verbatim>\<open>{"error": {"toString": 1}}\<close> at every attempt, the constructor of the error throws a
  \<^verbatim>\<open>TypeError\<close> at the last attempt and that is what the promise is rejected with.
\<close>

theorem retry_after_unparsable_counterexample:
  "status (rate_limited_response ''soon'') = 429
   \<and> int 0 < config_retries example_config
   \<and> headers_get (rate_limited_response ''soon'') ''Retry-After'' = Some ''soon''
   \<and> parseInt ''soon'' = None
   \<and> snd (makeRequest example_config
            (first_then (Resolved (rate_limited_response ''soon'')) (Resolved found_response))
            ''/server/123'' no_options)
       = [Fetch 0, Delay None, Fetch 1]
   \<and> Delay (Some 1000) \<notin> set (snd (makeRequest example_config
            (first_then (Resolved (rate_limited_response ''soon'')) (Resolved found_response))
            ''/server/123'' no_options))
   \<and> status unprintable_rate_limited_response = 429
   \<and> makeRequest example_config (\<lambda>n url init. Resolved unprintable_rate_limited_response)
        ''/server/123'' no_options
       = (Inl conversion_TypeError,
          [Fetch 0, Delay (Some 1000), Fetch 1, Delay (Some 1000), Fetch 2, Delay (Some 1000),
           Fetch 3])
   \<and> \<not> instanceof_WardenAPIError conversion_TypeError"
proof -
  obtain init where init: "request_init example_config no_options = Inr init"
    using example_request_built[OF options_timeout_no_options] by blast
  show ?thesis
    unfolding makeRequest_built[OF init]
    by (simp add: example_config_def first_then_def
      rate_limited_response_def unprintable_rate_limited_response_def
      retryAfter_ms_def string_or_def times_1000_def attempt_loop.simps
      try_block_def catch_block_def ok_def found_response_def rate_limit_headers_def
      spread_with_rateLimit_def extractRateLimit_def parseInt_def strip_sign_def
      strip_prefix_def is_white_space_def digit_of_def safeJsonParse_def errorMessage_def
      new_WardenAPIError_def conversion_TypeError_def instanceof_WardenAPIError_def)
qed

section \<open>A response that is an error\<close>

text \<open>
  Claim C3, as amended. When the request is built (\<^verbatim>\<open>AbortSignal.timeout\<close> accepts the
  timeout) and attempt \<open>k\<close> of \<^verbatim>\<open>makeRequest\<close> receives a response that is not \<^verbatim>\<open>ok\<close>
  and not a 429 with attempts left, and the error message converts to a string, the
  promise is rejected with a \<^verbatim>\<open>WardenAPIError\<close> and attempt \<open>k\<close> is the last event of the
  run, whatever budget is left. The error carries the status, the extracted rate-limit
  record, and as \<^verbatim>\<open>responseData\<close> the decoded body, or \<^verbatim>\<open>null\<close> when the body does not
  decode. Its message is the string of the \<^verbatim>\<open>error\<close> property of the decoded body when
  the body has one that is truthy (a string that is not empty is the message as it is),
  and \<^verbatim>\<open>HTTP <status>: <statusText>\<close> in every other case.
\<close>

theorem makeRequest_domain_error:
  assumes "request_init config options = Inr init"
    and "\<forall>n<k. goes_on config n (fetch n (request_url config endpoint) init)"
    and "int k \<le> config_retries config"
    and "fetch k (request_url config endpoint) init = Resolved response"
    and "\<not> ok response"
    and "\<not> (status response = 429 \<and> int k < config_retries config)"
    and "js_toString (errorMessage response (safeJsonParse response)) = Some msg"
  shows "\<exists>w evs.
           makeRequest config fetch endpoint options = (Inl (WardenError w), evs @ [Fetch k])
         \<and> fetch_indices evs = [0..<k]
         \<and> statusCode w = Some (status response)
         \<and> rateLimit w = extractRateLimit response
         \<and> responseData w = Some (case json_body response of None \<Rightarrow> JNull | Some body \<Rightarrow> body)
         \<and> message w = msg
         \<and> Some msg =
             (case json_body response of
                None \<Rightarrow> Some (''HTTP '' @ show_nat (status response) @ '': '' @ statusText response)
              | Some body \<Rightarrow>
                  (case json_property body ''error'' of
                     None \<Rightarrow>
                       Some (''HTTP '' @ show_nat (status response) @ '': '' @ statusText response)
                   | Some e \<Rightarrow>
                       if json_truthy e then js_toString e
                       else Some (''HTTP '' @ show_nat (status response) @ '': ''
                                  @ statusText response)))
         \<and> (\<forall>props s. json_body response = Some (JObj props)
                \<and> map_of props ''error'' = Some (JStr s) \<and> s \<noteq> [] \<longrightarrow> message w = s)"
proof -
  let ?net = "\<lambda>n. fetch n (request_url config endpoint) init"
  define w where "w = \<lparr> message = msg,
              statusCode = Some (status response),
              responseData = Some (safeJsonParse response),
              rateLimit = extractRateLimit response \<rparr>"
  from reach_domain_error[of k config ?net response msg None, OF assms(2-7)]
  obtain evs where run: "makeRequest config fetch endpoint options =
      (Inl (WardenError w), evs @ [Fetch k])" and idx: "fetch_indices evs = [0..<k]"
    unfolding makeRequest_built[OF assms(1)] w_def by blast
  have m: "Some msg =
             (case json_body response of
                None \<Rightarrow> Some (''HTTP '' @ show_nat (status response) @ '': '' @ statusText response)
              | Some body \<Rightarrow>
                  (case json_property body ''error'' of
                     None \<Rightarrow>
                       Some (''HTTP '' @ show_nat (status response) @ '': '' @ statusText response)
                   | Some e \<Rightarrow>
                       if json_truthy e then js_toString e
                       else Some (''HTTP '' @ show_nat (status response) @ '': ''
                                  @ statusText response)))"
    using assms(7) by (auto simp: errorMessage_def safeJsonParse_def split: option.splits)
  have s: "\<forall>props s. json_body response = Some (JObj props)
                \<and> map_of props ''error'' = Some (JStr s) \<and> s \<noteq> [] \<longrightarrow> message w = s"
    using assms(7) by (auto simp: w_def errorMessage_def safeJsonParse_def)
  have d: "responseData w = Some (case json_body response of None \<Rightarrow> JNull | Some body \<Rightarrow> body)"
    by (simp add: w_def safeJsonParse_def)
  have c: "statusCode w = Some (status response)" "rateLimit w = extractRateLimit response"
    "message w = msg"
    by (simp_all add: w_def)
  from run idx c d m s show ?thesis by blast
qed

theorem makeRequest_domain_error_witness:
  "request_timeout example_config no_options = 10000
   \<and> goes_on example_config 0 (Rejected (PlainError ''TypeError: fetch failed''))
   \<and> int 1 \<le> config_retries example_config
   \<and> \<not> ok unavailable_response
   \<and> status unavailable_response \<noteq> 429
   \<and> js_toString (errorMessage unavailable_response (safeJsonParse unavailable_response)) =
       Some ''HTTP 503: Service Unavailable''
   \<and> makeRequest example_config
     (first_then (Rejected (PlainError ''TypeError: fetch failed'')) (Resolved unavailable_response))
     ''/servers'' no_options =
   (Inl (WardenError \<lparr> message = ''HTTP 503: Service Unavailable'', statusCode = Some 503,
                        responseData = Some JNull, rateLimit = None \<rparr>),
    [Fetch 0, Delay (Some 1000), Fetch 1])"
proof -
  obtain init where init: "request_init example_config no_options = Inr init"
    using example_request_built[OF options_timeout_no_options] by blast
  from makeRequest_domain_error
    [of example_config no_options init 1
        "first_then (Rejected (PlainError ''TypeError: fetch failed'')) (Resolved unavailable_response)"
        "''/servers''" unavailable_response "''HTTP 503: Service Unavailable''", OF init]
  show ?thesis
    unfolding makeRequest_built[OF init]
    by (simp add: example_config_def first_then_def goes_on_def try_block_def catch_block_def
      instanceof_WardenAPIError_def ok_def unavailable_response_def extractRateLimit_def
      attempt_loop.simps as_Error_def safeJsonParse_def errorMessage_def
      new_WardenAPIError_def show_nat.simps request_timeout_no_options)
qed

text \<open>
  Claim C3 as stated fails: it promises a \<^verbatim>\<open>WardenAPIError\<close> at once for every response
  that is not \<^verbatim>\<open>ok\<close>. When every attempt is answered with status 500 and the body
  \<^verbatim>\<open>{"error": {"toString": 1}}\<close>, the constructor of the error throws a \<^verbatim>\<open>TypeError\<close>
  inside the \<^verbatim>\<open>try\<close>; the loop backs off and tries again three times, and the promise
  is rejected with the \<^verbatim>\<open>TypeError\<close>.
\<close>

theorem domain_error_unprintable_counterexample:
  "\<not> ok unprintable_error_response
   \<and> status unprintable_error_response = 500
   \<and> json_body unprintable_error_response =
       Some (JObj [(''error'', JObj [(''toString'', JNum ''1'')])])
   \<and> request_timeout example_config no_options = 10000
   \<and> makeRequest example_config (\<lambda>n url init. Resolved unprintable_error_response)
        ''/server/123'' no_options
       = (Inl conversion_TypeError,
          [Fetch 0, Delay (Some 1000), Fetch 1, Delay (Some 2000), Fetch 2, Delay (Some 4000),
           Fetch 3])
   \<and> \<not> instanceof_WardenAPIError conversion_TypeError"
proof -
  obtain init where init: "request_init example_config no_options = Inr init"
    using example_request_built[OF options_timeout_no_options] by blast
  show ?thesis
    unfolding makeRequest_built[OF init]
    by (simp add: example_config_def unprintable_error_response_def
      attempt_loop.simps try_block_def catch_block_def ok_def as_Error_def
      extractRateLimit_def safeJsonParse_def errorMessage_def
      new_WardenAPIError_def conversion_TypeError_def instanceof_WardenAPIError_def
      request_timeout_no_options)
qed

section \<open>Not found\<close>

text \<open>
  Claim C4. When \<^verbatim>\<open>makeRequest\<close> rejects with a \<^verbatim>\<open>WardenAPIError\<close>,
  \<^verbatim>\<open>checkServerById\<close>, \<^verbatim>\<open>checkServerByName\<close>, \<^verbatim>\<open>checkUserById\<close> and \<^verbatim>\<open>getServerInfo\<close>
  resolve to \<^verbatim>\<open>{ error: 'Server not found' }\<close> or \<^verbatim>\<open>{ error: 'User not found' }\<close> if its
  status code is 404 (\<^verbatim>\<open>checkServerById\<close> adds \<^verbatim>\<open>data: undefined\<close>, which reads as a
  missing property), and reject with the same error if it is not. \<^verbatim>\<open>checkServers\<close> is
  \<^verbatim>\<open>makeRequest\<close> itself. So when the requests are built (\<^verbatim>\<open>AbortSignal.timeout\<close> accepts
  the timeouts), the attempt that the loop reaches is answered with status 404 and the
  error message converts to a string, \<^verbatim>\<open>makeRequest\<close> and \<^verbatim>\<open>checkServers\<close> reject with a
  \<^verbatim>\<open>WardenAPIError\<close> of status code 404 and the four lookups resolve to their soft
  results.
\<close>

theorem not_found_is_soft_except_batch_and_raw:
  "(\<forall>w evs. makeRequest config fetch ''/server'' (post_options (server_request_by_id serverId))
               = (Inl (WardenError w), evs) \<longrightarrow>
       checkServerById config fetch serverId =
         (if statusCode w = Some 404
          then (Inr [(''error'', Json (JStr ''Server not found'')), (''data'', Undefined)], evs)
          else (Inl (WardenError w), evs)))
   \<and> (\<forall>w evs. makeRequest config fetch ''/server'' (post_options (server_request_by_name serverName))
               = (Inl (WardenError w), evs) \<longrightarrow>
       checkServerByName config fetch serverName =
         (if statusCode w = Some 404
          then (Inr [(''error'', Json (JStr ''Server not found''))], evs)
          else (Inl (WardenError w), evs)))
   \<and> (\<forall>w evs. makeRequest config fetch ''/user'' (post_options (user_request_by_id userId))
               = (Inl (WardenError w), evs) \<longrightarrow>
       checkUserById config fetch userId =
         (if statusCode w = Some 404
          then (Inr [(''error'', Json (JStr ''User not found''))], evs)
          else (Inl (WardenError w), evs)))
   \<and> (\<forall>w evs. makeRequest config fetch (''/server/'' @ serverId) no_options
               = (Inl (WardenError w), evs) \<longrightarrow>
       getServerInfo config fetch serverId =
         (if statusCode w = Some 404
          then (Inr [(''error'', Json (JStr ''Server not found''))], evs)
          else (Inl (WardenError w), evs)))
   \<and> checkServers config fetch servers =
       makeRequest config fetch ''/servers'' (post_options (batch_request servers))
   \<and> ((\<forall>n<k. \<forall>url init. goes_on config n (fetch n url init))
        \<and> int k \<le> config_retries config
        \<and> (\<forall>url init. fetch k url init = Resolved response)
        \<and> status response = 404
        \<and> js_toString (errorMessage response (safeJsonParse response)) = Some msg
        \<and> 0 \<le> config_timeout config \<and> config_timeout config \<le> 4294967295
        \<and> 0 \<le> request_timeout config options
        \<and> request_timeout config options \<le> 4294967295 \<longrightarrow>
        (\<exists>w. fst (makeRequest config fetch endpoint options) = Inl (WardenError w)
            \<and> statusCode w = Some 404)
        \<and> (\<exists>w. fst (checkServers config fetch servers) = Inl (WardenError w)
            \<and> statusCode w = Some 404)
        \<and> fst (checkServerById config fetch serverId) =
            Inr [(''error'', Json (JStr ''Server not found'')), (''data'', Undefined)]
        \<and> fst (checkServerByName config fetch serverName) =
            Inr [(''error'', Json (JStr ''Server not found''))]
        \<and> fst (checkUserById config fetch userId) =
            Inr [(''error'', Json (JStr ''User not found''))]
        \<and> fst (getServerInfo config fetch serverId) =
            Inr [(''error'', Json (JStr ''Server not found''))])"
proof (intro conjI impI allI)
  fix w evs
  assume "makeRequest config fetch ''/server'' (post_options (server_request_by_id serverId))
            = (Inl (WardenError w), evs)"
  then show "checkServerById config fetch serverId =
         (if statusCode w = Some 404
          then (Inr [(''error'', Json (JStr ''Server not found'')), (''data'', Undefined)], evs)
          else (Inl (WardenError w), evs))"
    by (simp add: checkServerById_def is_404_iff)
next
  fix w evs
  assume "makeRequest config fetch ''/server'' (post_options (server_request_by_name serverName))
            = (Inl (WardenError w), evs)"
  then show "checkServerByName config fetch serverName =
         (if statusCode w = Some 404
          then (Inr [(''error'', Json (JStr ''Server not found''))], evs)
          else (Inl (WardenError w), evs))"
    by (simp add: checkServerByName_def is_404_iff)
next
  fix w evs
  assume "makeRequest config fetch ''/user'' (post_options (user_request_by_id userId))
            = (Inl (WardenError w), evs)"
  then show "checkUserById config fetch userId =
         (if statusCode w = Some 404
          then (Inr [(''error'', Json (JStr ''User not found''))], evs)
          else (Inl (WardenError w), evs))"
    by (simp add: checkUserById_def is_404_iff)
next
  fix w evs
  assume "makeRequest config fetch (''/server/'' @ serverId) no_options = (Inl (WardenError w), evs)"
  then show "getServerInfo config fetch serverId =
         (if statusCode w = Some 404
          then (Inr [(''error'', Json (JStr ''Server not found''))], evs)
          else (Inl (WardenError w), evs))"
    by (simp add: getServerInfo_def is_404_iff)
next
  show "checkServers config fetch servers =
          makeRequest config fetch ''/servers'' (post_options (batch_request servers))"
    by (simp add: checkServers_def)
next
  assume a: "(\<forall>n<k. \<forall>url init. goes_on config n (fetch n url init))
        \<and> int k \<le> config_retries config
        \<and> (\<forall>url init. fetch k url init = Resolved response)
        \<and> status response = 404
        \<and> js_toString (errorMessage response (safeJsonParse response)) = Some msg
        \<and> 0 \<le> config_timeout config \<and> config_timeout config \<le> 4294967295
        \<and> 0 \<le> request_timeout config options
        \<and> request_timeout config options \<le> 4294967295"
  then have raw: "\<exists>w evs. makeRequest config fetch e opts = (Inl (WardenError w), evs)
               \<and> statusCode w = Some 404"
    if "0 \<le> request_timeout config opts" "request_timeout config opts \<le> 4294967295"
    for e opts
    using not_found_response_reached[of k config fetch response msg opts e] that by blast
  have post: "0 \<le> request_timeout config (post_options r)"
    "request_timeout config (post_options r) \<le> 4294967295" for r
    using a by (simp_all add: request_timeout_post_options)
  have none: "0 \<le> request_timeout config no_options"
    "request_timeout config no_options \<le> 4294967295"
    using a by (simp_all add: request_timeout_no_options)
  from raw[of options endpoint] a
  show "\<exists>w. fst (makeRequest config fetch endpoint options) = Inl (WardenError w)
              \<and> statusCode w = Some 404" by auto
  from raw[of "post_options (batch_request servers)" "''/servers''", OF post]
  show "\<exists>w. fst (checkServers config fetch servers) = Inl (WardenError w)
              \<and> statusCode w = Some 404" by (auto simp: checkServers_def)
  from raw[of "post_options (server_request_by_id serverId)" "''/server''", OF post]
  show "fst (checkServerById config fetch serverId) =
           Inr [(''error'', Json (JStr ''Server not found'')), (''data'', Undefined)]"
    by (auto simp: checkServerById_def is_404_iff)
  from raw[of "post_options (server_request_by_name serverName)" "''/server''", OF post]
  show "fst (checkServerByName config fetch serverName) =
           Inr [(''error'', Json (JStr ''Server not found''))]"
    by (auto simp: checkServerByName_def is_404_iff)
  from raw[of "post_options (user_request_by_id userId)" "''/user''", OF post]
  show "fst (checkUserById config fetch userId) =
           Inr [(''error'', Json (JStr ''User not found''))]"
    by (auto simp: checkUserById_def is_404_iff)
  from raw[of no_options "''/server/'' @ serverId", OF none]
  show "fst (getServerInfo config fetch serverId) =
           Inr [(''error'', Json (JStr ''Server not found''))]"
    by (auto simp: getServerInfo_def is_404_iff)
qed

theorem not_found_is_soft_except_batch_and_raw_witness:
  "status not_found_response = 404
   \<and> int 0 \<le> config_retries example_config
   \<and> config_timeout example_config = 10000
   \<and> js_toString (errorMessage not_found_response (safeJsonParse not_found_response)) =
       Some ''No such server''
   \<and> checkServerById example_config (\<lambda>n url init. Resolved not_found_response) ''123'' =
       (Inr [(''error'', Json (JStr ''Server not found'')), (''data'', Undefined)], [Fetch 0])
   \<and> checkServerByName example_config (\<lambda>n url init. Resolved not_found_response) ''X'' =
       (Inr [(''error'', Json (JStr ''Server not found''))], [Fetch 0])
   \<and> checkUserById example_config (\<lambda>n url init. Resolved not_found_response) ''456'' =
       (Inr [(''error'', Json (JStr ''User not found''))], [Fetch 0])
   \<and> getServerInfo example_config (\<lambda>n url init. Resolved not_found_response) ''123'' =
       (Inr [(''error'', Json (JStr ''Server not found''))], [Fetch 0])
   \<and> checkServers example_config (\<lambda>n url init. Resolved not_found_response) [(Some ''123'', None)] =
       (Inl (WardenError \<lparr> message = ''No such server'', statusCode = Some 404,
                            responseData = Some (JObj [(''error'', JStr ''No such server'')]),
                            rateLimit = None \<rparr>), [Fetch 0])"
  using not_found_is_soft_except_batch_and_raw
    [where config = example_config and fetch = "\<lambda>n url init. Resolved not_found_response"
       and serverId = "''123''" and serverName = "''X''" and userId = "''456''"
       and servers = "[(Some ''123'', None)]" and k = 0 and response = not_found_response
       and endpoint = "''/servers''" and options = no_options and msg = "''No such server''"]
  by (simp add: run_not_found options_timeout_post_options options_timeout_no_options)
     (simp add: example_config_def not_found_response_def safeJsonParse_def errorMessage_def)

section \<open>A successful response\<close>

text \<open>
  Claim C5. When the request is built (\<^verbatim>\<open>AbortSignal.timeout\<close> accepts the timeout) and
  attempt \<open>k\<close> of \<^verbatim>\<open>makeRequest\<close> receives a response whose status is \<^verbatim>\<open>ok\<close> and whose
  body decodes to the JSON value \<open>data\<close>, the promise resolves to
  \<^verbatim>\<open>{ ...data, rateLimit }\<close>: its property \<^verbatim>\<open>rateLimit\<close> is the rate-limit record
  extracted from the headers of that response, every other property is the property of
  \<open>data\<close>, and when one of the three rate-limit headers is missing the property
  \<^verbatim>\<open>rateLimit\<close> is \<^verbatim>\<open>undefined\<close>.
\<close>

theorem makeRequest_success_result:
  assumes "request_init config options = Inr init"
    and "\<forall>n<k. goes_on config n (fetch n (request_url config endpoint) init)"
    and "int k \<le> config_retries config"
    and "fetch k (request_url config endpoint) init = Resolved response"
    and "ok response"
    and "json_body response = Some data"
  shows "\<exists>result.
           fst (makeRequest config fetch endpoint options) = Inr result
         \<and> result = spread_with_rateLimit data (extractRateLimit response)
         \<and> property result ''rateLimit'' =
             (case extractRateLimit response of None \<Rightarrow> Undefined | Some rl \<Rightarrow> RateLimit rl)
         \<and> (\<forall>key. key \<noteq> ''rateLimit'' \<longrightarrow>
               property result key =
                 (case map_of (own_properties data) key of
                    None \<Rightarrow> Undefined | Some v \<Rightarrow> Json v))
         \<and> (headers_get response ''X-RateLimit-Limit'' = None
            \<or> headers_get response ''X-RateLimit-Remaining'' = None
            \<or> headers_get response ''X-RateLimit-Reset'' = None
            \<longrightarrow> property result ''rateLimit'' = Undefined)"
proof -
  let ?net = "\<lambda>n. fetch n (request_url config endpoint) init"
  have "try_block config k (?net k) =
          Returned (spread_with_rateLimit data (extractRateLimit response))"
    using assms(4,5,6) by (simp add: try_block_ok)
  from reach_returned[of k config ?net, OF assms(2,3) this, of None]
  have "fst (makeRequest config fetch endpoint options) =
          Inr (spread_with_rateLimit data (extractRateLimit response))"
    unfolding makeRequest_built[OF assms(1)] by auto
  then show ?thesis
    by (auto simp: property_spread_rateLimit property_spread_other extractRateLimit_partial)
qed

theorem makeRequest_success_result_witness:
  "request_timeout example_config no_options = 10000
   \<and> goes_on example_config 0 (Resolved (rate_limited_response ''2''))
   \<and> int 1 \<le> config_retries example_config
   \<and> ok found_response
   \<and> json_body found_response =
       Some (JObj [(''id'', JStr ''123''), (''name'', JStr ''X''), (''type'', JStr ''CHEATING'')])
   \<and> fst (makeRequest example_config
         (first_then (Resolved (rate_limited_response ''2'')) (Resolved found_response))
         ''/server/123'' no_options) =
     Inr [(''id'', Json (JStr ''123'')), (''name'', Json (JStr ''X'')),
          (''type'', Json (JStr ''CHEATING'')),
          (''rateLimit'', RateLimit \<lparr> limit = Some 100, remaining = Some 99,
                                       reset = Some 1700000000, retryAfter = None \<rparr>)]"
proof -
  obtain init where init: "request_init example_config no_options = Inr init"
    using example_request_built[OF options_timeout_no_options] by blast
  from makeRequest_success_result
    [of example_config no_options init 1
        "first_then (Resolved (rate_limited_response ''2'')) (Resolved found_response)"
        "''/server/123''" found_response
        "JObj [(''id'', JStr ''123''), (''name'', JStr ''X''), (''type'', JStr ''CHEATING'')]",
     OF init]
  show ?thesis
    by (simp add: example_config_def first_then_def goes_on_def try_block_def ok_def
      rate_limited_response_def found_response_def rate_limit_headers_def
      spread_with_rateLimit_def extractRateLimit_def parseInt_def strip_sign_def
      strip_prefix_def is_white_space_def digit_of_def request_timeout_no_options)
qed

section \<open>The rate-limit record\<close>

text \<open>
  Claim C6, as amended. \<^verbatim>\<open>extractRateLimit\<close> returns a record exactly when the three
  headers \<^verbatim>\<open>X-RateLimit-Limit\<close>, \<^verbatim>\<open>X-RateLimit-Remaining\<close> and \<^verbatim>\<open>X-RateLimit-Reset\<close>
  are all present and not empty; when one of them is missing it returns \<^verbatim>\<open>undefined\<close>.
  The fields of the record are \<^verbatim>\<open>parseInt\<close> of the header values, whatever they are.
\<close>

theorem extractRateLimit_present:
  "((\<exists>info. extractRateLimit response = Some info) =
      (\<exists>l rm rs. headers_get response ''X-RateLimit-Limit'' = Some l \<and> l \<noteq> []
         \<and> headers_get response ''X-RateLimit-Remaining'' = Some rm \<and> rm \<noteq> []
         \<and> headers_get response ''X-RateLimit-Reset'' = Some rs \<and> rs \<noteq> []))
   \<and> (\<forall>l rm rs. headers_get response ''X-RateLimit-Limit'' = Some l \<and> l \<noteq> []
         \<and> headers_get response ''X-RateLimit-Remaining'' = Some rm \<and> rm \<noteq> []
         \<and> headers_get response ''X-RateLimit-Reset'' = Some rs \<and> rs \<noteq> []
       \<longrightarrow> extractRateLimit response =
             Some \<lparr> limit = parseInt l, remaining = parseInt rm, reset = parseInt rs,
                    retryAfter = (case headers_get response ''Retry-After'' of
                                    None \<Rightarrow> None
                                  | Some ra \<Rightarrow> if ra \<noteq> [] then Some (parseInt ra) else None) \<rparr>)
   \<and> (headers_get response ''X-RateLimit-Limit'' = None
        \<or> headers_get response ''X-RateLimit-Remaining'' = None
        \<or> headers_get response ''X-RateLimit-Reset'' = None
       \<longrightarrow> extractRateLimit response = None)"
  by (auto simp: extractRateLimit_def Let_def split: option.splits)

theorem extractRateLimit_present_witness:
  "extractRateLimit found_response =
     Some \<lparr> limit = Some 100, remaining = Some 99, reset = Some 1700000000, retryAfter = None \<rparr>
   \<and> extractRateLimit unavailable_response = None"
  using extractRateLimit_present[of found_response] extractRateLimit_present[of unavailable_response]
  by (simp add: found_response_def rate_limit_headers_def unavailable_response_def
      parseInt_def strip_sign_def strip_prefix_def is_white_space_def digit_of_def)

text \<open>
  Claim C6 as stated fails: it promises no record for malformed headers. With the three
  headers \<open>abc\<close>, \<open>5\<close> and \<open>soon\<close>, \<^verbatim>\<open>extractRateLimit\<close> returns a record whose
  \<^verbatim>\<open>limit\<close> and \<^verbatim>\<open>reset\<close> are \<^verbatim>\<open>NaN\<close>.
\<close>

theorem extractRateLimit_malformed_counterexample:
  "parseInt ''abc'' = None \<and> parseInt ''soon'' = None
   \<and> extractRateLimit malformed_rate_limit_response =
       Some \<lparr> limit = None, remaining = Some 5, reset = None, retryAfter = None \<rparr>"
  by (simp add: malformed_rate_limit_response_def extractRateLimit_def
      parseInt_def strip_sign_def strip_prefix_def is_white_space_def digit_of_def)

section \<open>Construction\<close>



text \<open>
  Claim C9. With a key that starts with \<open>wd_\<close> the constructor succeeds, and it replaces
  an explicit retry count of 0 by 3 and an explicit timeout of 0 by 10000: no client has
  a retry count of 0 or a timeout of 0.
\<close>

theorem constructor_zero_is_default:
  assumes "apiKey config = Some key" and "startsWith key ''wd_''"
  shows "\<exists>c. WardenAPI_constructor config = Inr c
           \<and> (retries config = Some 0 \<longrightarrow> config_retries c = 3)
           \<and> (timeout config = Some 0 \<longrightarrow> config_timeout c = 10000)
           \<and> config_retries c \<noteq> 0 \<and> config_timeout c \<noteq> 0"
  using assms
  by (auto simp: WardenAPI_constructor_def startsWith_def number_or_def
      split: option.splits)

theorem constructor_zero_is_default_witness:
  "startsWith ''wd_example'' ''wd_''
   \<and> WardenAPI_constructor \<lparr> apiKey = Some ''wd_example'', baseUrl = None, timeout = Some 0,
                            retries = Some 0 \<rparr> = Inr example_config"
  using constructor_zero_is_default
          [of "\<lparr> apiKey = Some ''wd_example'', baseUrl = None, timeout = Some 0, retries = Some 0 \<rparr>"
              "''wd_example''"]
  by (simp add: startsWith_def example_config_def WardenAPI_constructor_def
      string_or_def number_or_def)

section \<open>The flag checks\<close>

text \<open>
  Claim C8. When the lookup (\<^verbatim>\<open>getServerInfo\<close> for \<^verbatim>\<open>isServerFlagged\<close>,
  \<^verbatim>\<open>checkUserById\<close> for \<^verbatim>\<open>isUserFlagged\<close>) resolves to a result, the check resolves to
  true exactly when the \<^verbatim>\<open>error\<close> property of the result is falsy and its \<^verbatim>\<open>id\<close>
  property is truthy: to false when \<^verbatim>\<open>error\<close> is a string that is not empty, to false
  when \<^verbatim>\<open>id\<close> is missing or the empty string, to true when \<^verbatim>\<open>error\<close> is missing and
  \<^verbatim>\<open>id\<close> is a string that is not empty. When the lookup rejects, so does the check.
\<close>

theorem flagged_checks:
  "(\<forall>response evs. getServerInfo config fetch serverId = (Inr response, evs) \<longrightarrow>
       (\<exists>b. isServerFlagged config fetch serverId = (Inr b, evs)
          \<and> b = (\<not> truthy (property response ''error'') \<and> truthy (property response ''id''))
          \<and> ((\<exists>e. property response ''error'' = Json (JStr e) \<and> e \<noteq> []) \<longrightarrow> \<not> b)
          \<and> (property response ''id'' = Undefined \<or> property response ''id'' = Json (JStr [])
              \<longrightarrow> \<not> b)
          \<and> (\<forall>i. property response ''error'' = Undefined
                \<and> property response ''id'' = Json (JStr i) \<and> i \<noteq> [] \<longrightarrow> b)))
   \<and> (\<forall>response evs. checkUserById config fetch userId = (Inr response, evs) \<longrightarrow>
       (\<exists>b. isUserFlagged config fetch userId = (Inr b, evs)
          \<and> b = (\<not> truthy (property response ''error'') \<and> truthy (property response ''id''))
          \<and> ((\<exists>e. property response ''error'' = Json (JStr e) \<and> e \<noteq> []) \<longrightarrow> \<not> b)
          \<and> (property response ''id'' = Undefined \<or> property response ''id'' = Json (JStr [])
              \<longrightarrow> \<not> b)
          \<and> (\<forall>i. property response ''error'' = Undefined
                \<and> property response ''id'' = Json (JStr i) \<and> i \<noteq> [] \<longrightarrow> b)))
   \<and> (\<forall>error evs. getServerInfo config fetch serverId = (Inl error, evs) \<longrightarrow>
         isServerFlagged config fetch serverId = (Inl error, evs))
   \<and> (\<forall>error evs. checkUserById config fetch userId = (Inl error, evs) \<longrightarrow>
         isUserFlagged config fetch userId = (Inl error, evs))"
  by (auto simp: isServerFlagged_def isUserFlagged_def)

theorem flagged_checks_witness:
  "getServerInfo example_config (\<lambda>n url init. Resolved found_response) ''123'' =
     (Inr [(''id'', Json (JStr ''123'')), (''name'', Json (JStr ''X'')),
           (''type'', Json (JStr ''CHEATING'')),
           (''rateLimit'', RateLimit \<lparr> limit = Some 100, remaining = Some 99,
                                        reset = Some 1700000000, retryAfter = None \<rparr>)],
      [Fetch 0])
   \<and> checkUserById example_config (\<lambda>n url init. Resolved not_found_response) ''456'' =
     (Inr [(''error'', Json (JStr ''User not found''))], [Fetch 0])
   \<and> isServerFlagged example_config (\<lambda>n url init. Resolved found_response) ''123'' =
     (Inr True, [Fetch 0])
   \<and> isUserFlagged example_config (\<lambda>n url init. Resolved not_found_response) ''456'' =
     (Inr False, [Fetch 0])"
  using flagged_checks
    [of example_config "\<lambda>n url init. Resolved found_response" "''123''" "''456''"]
   flagged_checks
    [of example_config "\<lambda>n url init. Resolved not_found_response" "''123''" "''456''"]
  by (simp add: getServerInfo_def checkUserById_def run_found run_not_found is_404_iff
      property_def options_timeout_post_options options_timeout_no_options)

section \<open>A successful response whose body is no JSON\<close>

text \<open>
  Claim C10. When the loop receives a response whose status is \<^verbatim>\<open>ok\<close> and whose body
  does not decode, the exception of \<^verbatim>\<open>response.json()\<close> is no \<^verbatim>\<open>WardenAPIError\<close> and
  the loop behaves as if \<^verbatim>\<open>fetch\<close> had been rejected with it at that attempt: below the
  retry budget it delays \<open>2^attempt\<close> seconds and goes on with the next attempt, and at
  the last attempt it rejects the promise with that exception.
\<close>

theorem json_parse_failure_retried:
  assumes "net attempt = Resolved response" and "ok response" and "json_body response = None"
  shows "\<not> instanceof_WardenAPIError json_SyntaxError
       \<and> attempt_loop config net attempt lastError =
           attempt_loop config (net(attempt := Rejected json_SyntaxError)) attempt lastError
       \<and> (int attempt < config_retries config \<longrightarrow>
            attempt_loop config net attempt lastError =
              (fst (attempt_loop config net (Suc attempt) (Some json_SyntaxError)),
               Fetch attempt # Delay (Some (2 ^ attempt * 1000))
                 # snd (attempt_loop config net (Suc attempt) (Some json_SyntaxError))))
       \<and> (int attempt = config_retries config \<longrightarrow>
            attempt_loop config net attempt lastError = (Inl json_SyntaxError, [Fetch attempt]))"
proof (intro conjI impI)
  show no: "\<not> instanceof_WardenAPIError json_SyntaxError"
    by (simp add: json_SyntaxError_def instanceof_WardenAPIError_def)
  have t: "try_block config attempt (net attempt) = Thrown json_SyntaxError"
    using assms by (simp add: try_block_parse_failure)
  from loop_thrown_as_rejected[of config attempt net, OF t]
  show "attempt_loop config net attempt lastError =
          attempt_loop config (net(attempt := Rejected json_SyntaxError)) attempt lastError" .
  {
    assume lt: "int attempt < config_retries config"
    then have le: "int attempt \<le> config_retries config" and ne: "int attempt \<noteq> config_retries config"
      by simp_all
    have "as_Error json_SyntaxError = json_SyntaxError"
      by (simp add: json_SyntaxError_def as_Error_def)
    with loop_backoff[of attempt config net, OF le t catch_block_backoff[OF ne no]]
    show "attempt_loop config net attempt lastError =
            (fst (attempt_loop config net (Suc attempt) (Some json_SyntaxError)),
             Fetch attempt # Delay (Some (2 ^ attempt * 1000))
               # snd (attempt_loop config net (Suc attempt) (Some json_SyntaxError)))"
      by simp
  }
  {
    assume eq: "int attempt = config_retries config"
    then have le: "int attempt \<le> config_retries config" by simp
    from loop_rethrown[of attempt config net, OF le t catch_block_last[OF eq]]
    show "attempt_loop config net attempt lastError = (Inl json_SyntaxError, [Fetch attempt])" .
  }
qed

theorem json_parse_failure_retried_witness:
  "ok not_json_response \<and> json_body not_json_response = None
   \<and> int 0 < config_retries example_config
   \<and> makeRequest example_config (\<lambda>n url init. Resolved not_json_response) ''/user'' no_options =
       (Inl json_SyntaxError,
        [Fetch 0, Delay (Some 1000), Fetch 1, Delay (Some 2000),
         Fetch 2, Delay (Some 4000), Fetch 3])"
proof -
  obtain init where init: "request_init example_config no_options = Inr init"
    using example_request_built[OF options_timeout_no_options] by blast
  from json_parse_failure_retried
    [of "\<lambda>n. Resolved not_json_response" 0 not_json_response example_config None]
  show ?thesis
    unfolding makeRequest_built[OF init]
    by (simp add: example_config_def not_json_response_def ok_def
      attempt_loop.simps try_block_def catch_block_def as_Error_def json_SyntaxError_def
      instanceof_WardenAPIError_def extractRateLimit_def)
qed

end
